theory Spec2Isabelle
  imports Main
begin

unbundle bit_operations_syntax

section \<open>JavaScript values and errors\<close>

text \<open>
  The repository is JavaScript. Strings are byte lists (the UTF-8 bytes that
  \<^verbatim>\<open>Buffer.from(str)\<close> produces). A JSON value keeps the insertion order of
  its object keys, as a JavaScript object does for the keys that are not array indices
  (the objects that the code builds have no such key). A number is held by its decimal
  rendering (what \<^verbatim>\<open>String(n)\<close> gives), so that no floating point arithmetic
  is needed to print it.
\<close>

datatype jval =
    JNull
  | JBool bool
  | JNum string
  | JStr string
  | JArr "jval list"
  | JObj "(string \<times> jval) list"

type_synonym jobj = "(string \<times> jval) list"

text \<open>
  The error classes of \<^verbatim>\<open>middleware/error-handler.js\<close>, the built-in
  \<^verbatim>\<open>Error\<close>, and any other error object of a library (its name and its
  message).
\<close>

datatype err =
    ValidationError string
  | NotFoundError string
  | ConflictError string
  | EndorsementError string
  | ConnectionError string
  | Error string
  | LibError string string

fun err_name :: "err \<Rightarrow> string" where
  "err_name (ValidationError m) = ''ValidationError''"
| "err_name (NotFoundError m) = ''NotFoundError''"
| "err_name (ConflictError m) = ''ConflictError''"
| "err_name (EndorsementError m) = ''EndorsementError''"
| "err_name (ConnectionError m) = ''ConnectionError''"
| "err_name (Error m) = ''Error''"
| "err_name (LibError n m) = n"

fun err_message :: "err \<Rightarrow> string" where
  "err_message (ValidationError m) = m"
| "err_message (NotFoundError m) = m"
| "err_message (ConflictError m) = m"
| "err_message (EndorsementError m) = m"
| "err_message (ConnectionError m) = m"
| "err_message (Error m) = m"
| "err_message (LibError n m) = m"

text \<open>Property read \<^verbatim>\<open>obj.k\<close> and property write \<^verbatim>\<open>obj.k = v\<close>: a write
  to an existing key keeps the key's place, a write to a new key appends it.\<close>

definition jget :: "jobj \<Rightarrow> string \<Rightarrow> jval option" where
  "jget obj k = map_of obj k"

fun jset :: "jobj \<Rightarrow> string \<Rightarrow> jval \<Rightarrow> jobj" where
  "jset [] k v = [(k, v)]"
| "jset ((k', v') # rest) k v =
     (if k' = k then (k, v) # rest else (k', v') # jset rest k v)"

subsection \<open>JSON.stringify\<close>

definition hex_digit :: "int \<Rightarrow> char" where
  "hex_digit n = ''0123456789abcdef'' ! nat (n mod 16)"

definition escape_char :: "char \<Rightarrow> string" where
  "escape_char c =
     (if c = CHR ''\"'' then [CHR 0x5C, CHR ''\"'']
      else if c = CHR 0x5C then [CHR 0x5C, CHR 0x5C]
      else if c = CHR 0x08 then [CHR 0x5C, CHR ''b'']
      else if c = CHR 0x0C then [CHR 0x5C, CHR ''f'']
      else if c = CHR 0x0A then [CHR 0x5C, CHR ''n'']
      else if c = CHR 0x0D then [CHR 0x5C, CHR ''r'']
      else if c = CHR 0x09 then [CHR 0x5C, CHR ''t'']
      else if of_char c < (32 :: nat)
        then [CHR 0x5C, CHR ''u'', CHR ''0'', CHR ''0'',
              hex_digit (of_char c div 16), hex_digit (of_char c)]
      else [c])"

definition quote :: "string \<Rightarrow> string" where
  "quote s = [CHR ''\"''] @ concat (map escape_char s) @ [CHR ''\"'']"

fun join :: "string \<Rightarrow> string list \<Rightarrow> string" where
  "join sep [] = []"
| "join sep [x] = x"
| "join sep (x # y # ys) = x @ sep @ join sep (y # ys)"

fun stringify :: "jval \<Rightarrow> string" where
  "stringify JNull = ''null''"
| "stringify (JBool b) = (if b then ''true'' else ''false'')"
| "stringify (JNum n) = n"
| "stringify (JStr s) = quote s"
| "stringify (JArr xs) = ''['' @ join '','' (map stringify xs) @ '']''"
| "stringify (JObj kvs) =
     ''{'' @ join '','' (map (\<lambda>(k, v). quote k @ '':'' @ stringify v) kvs) @ ''}''"

subsection \<open>SHA-256\<close>

text \<open>
  \<^verbatim>\<open>crypto.createHash('sha256').update(buf).digest('hex')\<close>: the hash of
  FIPS 180-4 on the bytes of the buffer, printed as 64 lower-case hexadecimal digits.
  A 32-bit word is an integer below \<open>2 ^ 32\<close>, with the wrap-around of the addition
  written out.
\<close>

definition K256 :: "int list" where
  "K256 = [1116352408, 1899447441, 3049323471, 3921009573, 961987163, 1508970993, 2453635748, 2870763221, 3624381080, 310598401, 607225278, 1426881987, 1925078388, 2162078206, 2614888103, 3248222580, 3835390401, 4022224774, 264347078, 604807628, 770255983, 1249150122, 1555081692, 1996064986, 2554220882, 2821834349, 2952996808, 3210313671, 3336571891, 3584528711, 113926993, 338241895, 666307205, 773529912, 1294757372, 1396182291, 1695183700, 1986661051, 2177026350, 2456956037, 2730485921, 2820302411, 3259730800, 3345764771, 3516065817, 3600352804, 4094571909, 275423344, 430227734, 506948616, 659060556, 883997877, 958139571, 1322822218, 1537002063, 1747873779, 1955562222, 2024104815, 2227730452, 2361852424, 2428436474, 2756734187, 3204031479, 3329325298]"

definition H256 :: "int list" where
  "H256 = [1779033703, 3144134277, 1013904242, 2773480762, 1359893119, 2600822924, 528734635, 1541459225]"

definition add32 :: "int \<Rightarrow> int \<Rightarrow> int" where
  "add32 a b = (a + b) mod 4294967296"

definition rotr :: "nat \<Rightarrow> int \<Rightarrow> int" where
  "rotr n x = drop_bit n x + push_bit (32 - n) (take_bit n x)"

definition ssig0 :: "int \<Rightarrow> int" where "ssig0 x = rotr 7 x XOR rotr 18 x XOR drop_bit 3 x"
definition ssig1 :: "int \<Rightarrow> int" where "ssig1 x = rotr 17 x XOR rotr 19 x XOR drop_bit 10 x"
definition bsig0 :: "int \<Rightarrow> int" where "bsig0 x = rotr 2 x XOR rotr 13 x XOR rotr 22 x"
definition bsig1 :: "int \<Rightarrow> int" where "bsig1 x = rotr 6 x XOR rotr 11 x XOR rotr 25 x"
definition ch :: "int \<Rightarrow> int \<Rightarrow> int \<Rightarrow> int" where "ch x y z = (x AND y) XOR (NOT x AND z)"
definition maj :: "int \<Rightarrow> int \<Rightarrow> int \<Rightarrow> int" where "maj x y z = (x AND y) XOR (x AND z) XOR (y AND z)"

fun extend :: "nat \<Rightarrow> int list \<Rightarrow> int list" where
  "extend 0 w = []"
| "extend (Suc n) w =
     (let x = add32 (add32 (ssig1 (w ! 14)) (w ! 9)) (add32 (ssig0 (w ! 1)) (w ! 0))
      in x # extend n (tl w @ [x]))"

fun round :: "int list \<Rightarrow> int \<times> int \<Rightarrow> int list" where
  "round [a, b, c, d, e, f, g, h] (k, w) =
     (let t1 = add32 (add32 (add32 h (bsig1 e)) (ch e f g)) (add32 k w);
          t2 = add32 (bsig0 a) (maj a b c)
      in [add32 t1 t2, a, b, c, add32 d t1, e, f, g])"
| "round s _ = s"

definition compress :: "int list \<Rightarrow> int list \<Rightarrow> int list" where
  "compress hs block =
     map2 add32 hs (foldl round hs (zip K256 (block @ extend 48 block)))"

fun be_words :: "char list \<Rightarrow> int list" where
  "be_words (a # b # c # d # rest) =
     (((of_char a * 256 + of_char b) * 256 + of_char c) * 256 + of_char d) # be_words rest"
| "be_words _ = []"

fun blocks :: "nat \<Rightarrow> int list \<Rightarrow> int list list" where
  "blocks 0 ws = []"
| "blocks (Suc n) ws = take 16 ws # blocks n (drop 16 ws)"

definition be_bytes8 :: "int \<Rightarrow> char list" where
  "be_bytes8 x = [char_of (x div 2 ^ 56), char_of (x div 2 ^ 48), char_of (x div 2 ^ 40), char_of (x div 2 ^ 32),
     char_of (x div 2 ^ 24), char_of (x div 2 ^ 16), char_of (x div 2 ^ 8), char_of x]"

definition pad :: "char list \<Rightarrow> char list" where
  "pad m = m @ [CHR 0x80] @ replicate ((119 - length m mod 64) mod 64) (CHR 0x00)
             @ be_bytes8 (8 * int (length m))"

definition hex32 :: "int \<Rightarrow> string" where
  "hex32 w = [hex_digit (drop_bit 28 w), hex_digit (drop_bit 24 w), hex_digit (drop_bit 20 w), hex_digit (drop_bit 16 w),
     hex_digit (drop_bit 12 w), hex_digit (drop_bit 8 w), hex_digit (drop_bit 4 w), hex_digit w]"

definition sha256 :: "string \<Rightarrow> string" where
  "sha256 m =
     (let ws = be_words (pad m)
      in concat (map hex32 (foldl compress H256 (blocks (length ws div 16) ws))))"

section \<open>The chaincode: \<^verbatim>\<open>chaincode/lib/degree-contract.js\<close>\<close>

text \<open>
  The transaction context: the attributes of the caller's certificate
  (\<^verbatim>\<open>clientIdentity.getAttributeValue\<close>), its MSP id, the transaction time as
  \<^verbatim>\<open>_getTimestamp\<close> renders it (an ISO 8601 string) and the transient map.
  The world state maps a key to the JSON object whose \<^verbatim>\<open>JSON.stringify\<close>
  bytes \<^verbatim>\<open>putState\<close> stores; reading a key and parsing it gives the object
  back. A transaction that throws writes nothing.
\<close>

record ctx =
  attrs :: "string \<rightharpoonup> string"
  mspid :: string
  txTimestamp :: string
  transient :: "string \<rightharpoonup> string"

record ledger =
  world :: "string \<rightharpoonup> jobj"
  collection :: "string \<rightharpoonup> string"

definition or_unknown :: "string option \<Rightarrow> string" where
  "or_unknown ou = (case ou of None \<Rightarrow> ''unknown'' | Some s \<Rightarrow> if s = [] then ''unknown'' else s)"

definition checkRole :: "ctx \<Rightarrow> string \<Rightarrow> err + unit" where
  "checkRole c requiredRole =
     (let ou = attrs c ''ou'' in
      if ou = None \<or> ou = Some [] \<or> ou \<noteq> Some requiredRole
      then Inl (Error (''Access denied. Required role: '' @ requiredRole @
                       '', actual role: '' @ or_unknown ou @
                       '' (MSP: '' @ mspid c @ '')''))
      else Inr ())"

definition requireAdmin :: "ctx \<Rightarrow> err + unit" where
  "requireAdmin c = checkRole c ''admin''"

definition DegreeExists :: "ledger \<Rightarrow> string \<Rightarrow> bool" where
  "DegreeExists l degreeId = (world l degreeId \<noteq> None)"

record degree_args =
  a_degreeId :: string
  a_studentId :: string
  a_degreeType :: string
  a_studentName :: string
  a_university :: string
  a_major :: string
  a_classification :: string
  a_issueDate :: string
  a_transcriptHash :: "string option"

definition degree_object :: "ctx \<Rightarrow> degree_args \<Rightarrow> jobj" where
  "degree_object c a =
     [(''degreeId'', JStr (a_degreeId a)),
      (''studentId'', JStr (a_studentId a)),
      (''degreeType'', JStr (a_degreeType a)),
      (''studentName'', JStr (a_studentName a)),
      (''university'', JStr (a_university a)),
      (''major'', JStr (a_major a)),
      (''classification'', JStr (a_classification a)),
      (''issueDate'', JStr (a_issueDate a)),
      (''transcriptHash'', JStr (case a_transcriptHash a of None \<Rightarrow> [] | Some h \<Rightarrow> h)),
      (''status'', JStr ''ACTIVE''),
      (''timestamp'', JStr (txTimestamp c)),
      (''docType'', JStr ''degree'')]"

definition IssueDegree :: "ctx \<Rightarrow> ledger \<Rightarrow> degree_args \<Rightarrow> err + (ledger \<times> string)" where
  "IssueDegree c l a =
     (case requireAdmin c of
        Inl e \<Rightarrow> Inl e
      | Inr _ \<Rightarrow>
          if DegreeExists l (a_degreeId a)
          then Inl (Error (''Degree '' @ a_degreeId a @ '' already exists''))
          else let degree = degree_object c a
               in Inr (l\<lparr>world := (world l)(a_degreeId a \<mapsto> degree)\<rparr>,
                       stringify (JObj degree)))"

text \<open>
  \<^verbatim>\<open>RevokeDegree\<close> reads the stored object, refuses one whose status is already
  \<^verbatim>\<open>'REVOKED'\<close>, and writes it back with the status and the three revocation
  fields set.
\<close>

definition RevokeDegree :: "ctx \<Rightarrow> ledger \<Rightarrow> string \<Rightarrow> string \<Rightarrow> err + (ledger \<times> string)" where
  "RevokeDegree c l degreeId reason =
     (case requireAdmin c of
        Inl e \<Rightarrow> Inl e
      | Inr _ \<Rightarrow>
          (case world l degreeId of
             None \<Rightarrow> Inl (Error (''Degree '' @ degreeId @ '' does not exist''))
           | Some degree \<Rightarrow>
               if jget degree ''status'' = Some (JStr ''REVOKED'')
               then Inl (Error (''Degree '' @ degreeId @ '' is already revoked''))
               else let d1 = jset degree ''status'' (JStr ''REVOKED'');
                        d2 = jset d1 ''revocationReason'' (JStr reason);
                        d3 = jset d2 ''revokedAt'' (JStr (txTimestamp c));
                        d4 = jset d3 ''revokedBy'' (JStr (mspid c))
                    in Inr (l\<lparr>world := (world l)(degreeId \<mapsto> d4)\<rparr>,
                            stringify (JObj d4))))"

definition QueryDegree :: "ledger \<Rightarrow> string \<Rightarrow> err + string" where
  "QueryDegree l degreeId =
     (case world l degreeId of
        None \<Rightarrow> Inl (Error (''Degree '' @ degreeId @ '' does not exist''))
      | Some degree \<Rightarrow> Inr (stringify (JObj degree)))"

text \<open>
  \<^verbatim>\<open>UpdateTranscript\<close>. \<^verbatim>\<open>JSON.parse\<close> and the range check on
  \<^verbatim>\<open>parseFloat(gpa)\<close> belong to the JavaScript runtime and are parameters:
  \<open>parse\<close> returns the parsed value or the error it throws, \<open>gpaOK\<close> holds when
  \<^verbatim>\<open>parseFloat(gpa)\<close> is a number between 0 and 4.0. The private collection
  keeps the bytes that \<^verbatim>\<open>putPrivateData\<close> receives.
\<close>

definition transcript_data ::
  "ctx \<Rightarrow> string \<Rightarrow> jval \<Rightarrow> string \<Rightarrow> jval \<Rightarrow> jobj" where
  "transcript_data c studentId transcript gpa personalInfo =
     [(''studentId'', JStr studentId),
      (''transcript'', transcript),
      (''gpa'', JStr gpa),
      (''personalInfo'', personalInfo),
      (''updatedAt'', JStr (txTimestamp c)),
      (''updatedBy'', JStr (mspid c))]"

definition public_metadata :: "ctx \<Rightarrow> string \<Rightarrow> string \<Rightarrow> jobj" where
  "public_metadata c studentId transcriptHash =
     [(''studentId'', JStr studentId),
      (''updatedAt'', JStr (txTimestamp c)),
      (''updatedBy'', JStr (mspid c)),
      (''transcriptHash'', JStr transcriptHash),
      (''docType'', JStr ''transcript-metadata'')]"

definition update_result :: "string \<Rightarrow> string \<Rightarrow> jobj" where
  "update_result studentId transcriptHash =
     [(''success'', JBool True),
      (''studentId'', JStr studentId),
      (''transcriptHash'', JStr transcriptHash),
      (''message'', JStr ''Transcript updated successfully'')]"

definition UpdateTranscript ::
  "(string \<Rightarrow> err + jval) \<Rightarrow> (string \<Rightarrow> bool) \<Rightarrow> ctx \<Rightarrow> ledger \<Rightarrow> string
     \<Rightarrow> err + (ledger \<times> string)" where
  "UpdateTranscript parse gpaOK c l studentId =
     (case requireAdmin c of
        Inl e \<Rightarrow> Inl e
      | Inr _ \<Rightarrow>
          (case (transient c ''transcript'', transient c ''gpa'') of
             (Some transcriptBuffer, Some gpa) \<Rightarrow>
               (case (case transient c ''personalInfo'' of
                        None \<Rightarrow> Inr (JObj [])
                      | Some personalInfoBuffer \<Rightarrow> parse personalInfoBuffer) of
                  Inl e \<Rightarrow> Inl e
                | Inr personalInfo \<Rightarrow>
                    (case parse transcriptBuffer of
                       Inl e \<Rightarrow> Inl e
                     | Inr transcript \<Rightarrow>
                         if \<not> gpaOK gpa
                         then Inl (Error ''Invalid GPA value. Must be between 0.0 and 4.0'')
                         else
                           let transcriptDataBuffer =
                                 stringify (JObj (transcript_data c studentId transcript gpa personalInfo));
                               transcriptHash = sha256 transcriptDataBuffer
                           in Inr (l\<lparr>collection := (collection l)(studentId \<mapsto> transcriptDataBuffer),
                                     world := (world l)(''transcript-'' @ studentId \<mapsto>
                                                 public_metadata c studentId transcriptHash)\<rparr>,
                                   stringify (JObj (update_result studentId transcriptHash)))))
           | _ \<Rightarrow> Inl (Error ''Missing required transient data: transcript and gpa'')))"

definition or_null :: "string option \<Rightarrow> string" where
  "or_null v = (case v of None \<Rightarrow> ''null'' | Some s \<Rightarrow> s)"

definition GrantAccess :: "ctx \<Rightarrow> ledger \<Rightarrow> string \<Rightarrow> string \<Rightarrow> err + (ledger \<times> string)" where
  "GrantAccess c l studentId targetMSP =
     (let ou = attrs c ''ou'' in
      if ou \<noteq> Some ''student''
      then Inl (Error (''Access denied. Only students can grant access to transcripts. '' @
                       ''Caller role: '' @ or_unknown ou))
      else let username = attrs c ''username'' in
        if username \<noteq> Some studentId
        then Inl (Error (''Access denied. Students can only grant access to their own transcript. '' @
                         ''Requested: '' @ studentId @ '', Caller: '' @ or_null username))
        else let grantRecord =
                   [(''studentId'', JStr studentId),
                    (''targetMSP'', JStr targetMSP),
                    (''grantedBy'', JStr (mspid c)),
                    (''grantedAt'', JStr (txTimestamp c)),
                    (''docType'', JStr ''access-grant'')]
             in Inr (l\<lparr>world := (world l)(''grant-'' @ studentId @ ''-'' @ targetMSP \<mapsto> grantRecord)\<rparr>,
                     stringify (JObj grantRecord)))"

text \<open>
  The transactions that write: every other function of the contract only reads. A
  ledger is reachable when a sequence of successful transactions, each under its own
  context, leads to it from the empty ledger.
\<close>

datatype tx =
    TxIssueDegree degree_args
  | TxRevokeDegree string string
  | TxUpdateTranscript string
  | TxGrantAccess string string

fun invoke ::
  "(string \<Rightarrow> err + jval) \<Rightarrow> (string \<Rightarrow> bool) \<Rightarrow> ctx \<Rightarrow> ledger \<Rightarrow> tx
     \<Rightarrow> err + (ledger \<times> string)" where
  "invoke parse gpaOK c l (TxIssueDegree a) = IssueDegree c l a"
| "invoke parse gpaOK c l (TxRevokeDegree degreeId reason) = RevokeDegree c l degreeId reason"
| "invoke parse gpaOK c l (TxUpdateTranscript studentId) = UpdateTranscript parse gpaOK c l studentId"
| "invoke parse gpaOK c l (TxGrantAccess studentId targetMSP) = GrantAccess c l studentId targetMSP"

definition empty_ledger :: ledger where
  "empty_ledger = \<lparr>world = Map.empty, collection = Map.empty\<rparr>"

inductive reachable :: "(string \<Rightarrow> err + jval) \<Rightarrow> (string \<Rightarrow> bool) \<Rightarrow> ledger \<Rightarrow> bool"
  for parse :: "string \<Rightarrow> err + jval" and gpaOK :: "string \<Rightarrow> bool" where
  reachable_empty: "reachable parse gpaOK empty_ledger"
| reachable_invoke:
    "reachable parse gpaOK l \<Longrightarrow> invoke parse gpaOK c l t = Inr (l', r)
       \<Longrightarrow> reachable parse gpaOK l'"

text \<open>
  A record of the world state is a degree record when its \<^verbatim>\<open>docType\<close> is
  "degree"; \<open>status_at\<close> is the \<^verbatim>\<open>status\<close> property of the record under a
  key, if there is one.
\<close>

definition is_degree :: "jobj \<Rightarrow> bool" where
  "is_degree d = (jget d ''docType'' = Some (JStr ''degree''))"

definition status_at :: "ledger \<Rightarrow> string \<Rightarrow> jval option" where
  "status_at l k = (case world l k of None \<Rightarrow> None | Some d \<Rightarrow> jget d ''status'')"

definition degree_at :: "ledger \<Rightarrow> string \<Rightarrow> bool" where
  "degree_at l k = (case world l k of None \<Rightarrow> False | Some d \<Rightarrow> is_degree d)"

text \<open>Concrete inputs for the examples.\<close>

definition admin_ctx :: ctx where
  "admin_ctx = \<lparr>attrs = [''ou'' \<mapsto> ''admin''], mspid = ''Org1MSP'',
                 txTimestamp = ''2025-01-01T00:00:00.000Z'', transient = Map.empty\<rparr>"

definition d1_args :: degree_args where
  "d1_args = \<lparr>a_degreeId = ''D1'', a_studentId = ''S1'', a_degreeType = ''Bachelor'',
               a_studentName = ''An'', a_university = ''KMA'', a_major = ''IT'',
               a_classification = ''Good'', a_issueDate = ''2025-01-01'',
               a_transcriptHash = None\<rparr>"

text \<open>The invariant of the world state: a degree record is ACTIVE or REVOKED.\<close>

definition status_ok :: "jobj \<Rightarrow> bool" where
  "status_ok d = (is_degree d \<longrightarrow>
      jget d ''status'' = Some (JStr ''ACTIVE'') \<or> jget d ''status'' = Some (JStr ''REVOKED''))"

text \<open>The object that \<^verbatim>\<open>RevokeDegree\<close> writes back.\<close>

definition revoked_object :: "ctx \<Rightarrow> jobj \<Rightarrow> string \<Rightarrow> jobj" where
  "revoked_object c d reason =
     jset (jset (jset (jset d ''status'' (JStr ''REVOKED'')) ''revocationReason'' (JStr reason))
            ''revokedAt'' (JStr (txTimestamp c))) ''revokedBy'' (JStr (mspid c))"

text \<open>
  For the examples, a fragment of \<^verbatim>\<open>JSON.parse\<close>: the inverse of
  \<^verbatim>\<open>JSON.stringify\<close> on the listed values, a \<^verbatim>\<open>SyntaxError\<close> on any
  other text.
\<close>

definition parse_of :: "jval list \<Rightarrow> string \<Rightarrow> err + jval" where
  "parse_of vs s =
     (case find (\<lambda>v. stringify v = s) vs of
        Some v \<Rightarrow> Inr v
      | None \<Rightarrow> Inl (LibError ''SyntaxError'' ''Unexpected token''))"

text \<open>
  A sequence of transactions, each under its own context, from a given ledger: the
  ledger after the last one, or the error of the first one that fails.
\<close>

fun run_txs ::
  "(string \<Rightarrow> err + jval) \<Rightarrow> (string \<Rightarrow> bool) \<Rightarrow> ledger \<Rightarrow> (ctx \<times> tx) list
     \<Rightarrow> err + ledger" where
  "run_txs parse gpaOK l [] = Inr l"
| "run_txs parse gpaOK l ((c, t) # rest) =
     (case invoke parse gpaOK c l t of
        Inl e \<Rightarrow> Inl e
      | Inr (l', r) \<Rightarrow> run_txs parse gpaOK l' rest)"
section \<open>JavaScript helpers of the client\<close>

text \<open>
  \<^verbatim>\<open>String.prototype.includes\<close>; the test \<^verbatim>\<open>s.trim() === ''\<close>;
  \<^verbatim>\<open>toLowerCase\<close>; and the truth value of a value that may be
  \<^verbatim>\<open>undefined\<close> (\<open>None\<close>).

  \<^verbatim>\<open>trim\<close> removes the white space and the line terminators of ECMAScript:
  U+0009 to U+000D, U+0020, U+00A0, U+1680, U+2000 to U+200A, U+2028, U+2029, U+202F,
  U+205F, U+3000 and U+FEFF. A string is a list of UTF-8 bytes, so \<open>blank\<close> reads
  these code points in their UTF-8 form, of one, two or three bytes.

  \<open>toLowerCase\<close> lowers the letters of ASCII. The only use of
  \<^verbatim>\<open>toLowerCase\<close> in the source is the search for "grpc" and "unavailable"
  in \<^verbatim>\<open>detectFabricError\<close>; a character outside ASCII becomes an ASCII letter
  in two cases only (U+212A becomes "k", U+0130 becomes "i" followed by U+0307), and
  neither can complete one of these two words.
\<close>

fun startsWith :: "string \<Rightarrow> string \<Rightarrow> bool" where
  "startsWith s [] = True"
| "startsWith [] (p # ps) = False"
| "startsWith (c # cs) (p # ps) = (c = p \<and> startsWith cs ps)"

fun str_includes :: "string \<Rightarrow> string \<Rightarrow> bool" where
  "str_includes [] p = (p = [])"
| "str_includes (c # cs) p = (startsWith (c # cs) p \<or> str_includes cs p)"

definition is_space :: "char \<Rightarrow> bool" where
  "is_space c = (c \<in> set [CHR 0x20, CHR 0x09, CHR 0x0A, CHR 0x0B, CHR 0x0C, CHR 0x0D])"

definition is_space2 :: "char \<Rightarrow> char \<Rightarrow> bool" where
  "is_space2 a b = (a = CHR 0xC2 \<and> b = CHR 0xA0)"

definition is_space3 :: "char \<Rightarrow> char \<Rightarrow> char \<Rightarrow> bool" where
  "is_space3 a b c =
     ((a = CHR 0xE1 \<and> b = CHR 0x9A \<and> c = CHR 0x80) \<or>
      (a = CHR 0xE2 \<and> b = CHR 0x80 \<and>
         ((128 \<le> (of_char c :: nat) \<and> (of_char c :: nat) \<le> 138) \<or>
          c = CHR 0xA8 \<or> c = CHR 0xA9 \<or> c = CHR 0xAF)) \<or>
      (a = CHR 0xE2 \<and> b = CHR 0x81 \<and> c = CHR 0x9F) \<or>
      (a = CHR 0xE3 \<and> b = CHR 0x80 \<and> c = CHR 0x80) \<or>
      (a = CHR 0xEF \<and> b = CHR 0xBB \<and> c = CHR 0xBF))"

fun blank :: "string \<Rightarrow> bool" where
  "blank [] = True"
| "blank [a] = is_space a"
| "blank [a, b] = (if is_space a then blank [b] else is_space2 a b)"
| "blank (a # b # c # rest) =
     (if is_space a then blank (b # c # rest)
      else if is_space2 a b then blank (c # rest)
      else if is_space3 a b c then blank rest
      else False)"

definition lower_char :: "char \<Rightarrow> char" where
  "lower_char c =
     (let n = (of_char c :: nat) in if 65 \<le> n \<and> n \<le> 90 then char_of (n + 32) else c)"

definition toLowerCase :: "string \<Rightarrow> string" where
  "toLowerCase s = map lower_char s"

fun truthy :: "jval option \<Rightarrow> bool" where
  "truthy None = False"
| "truthy (Some JNull) = False"
| "truthy (Some (JBool b)) = b"
| "truthy (Some (JNum n)) = (n \<noteq> ''0'')"
| "truthy (Some (JStr s)) = (s \<noteq> [])"
| "truthy (Some (JArr xs)) = True"
| "truthy (Some (JObj kvs)) = True"

fun is_string :: "jval option \<Rightarrow> bool" where
  "is_string (Some (JStr s)) = True"
| "is_string _ = False"

fun is_string_or_number :: "jval \<Rightarrow> bool" where
  "is_string_or_number (JStr s) = True"
| "is_string_or_number (JNum n) = True"
| "is_string_or_number _ = False"

text \<open>
  Reading a property of a parsed value: \<^verbatim>\<open>null.k\<close> throws a
  \<^verbatim>\<open>TypeError\<close> (the message is the one of V8), an object gives the value
  of the key or \<^verbatim>\<open>undefined\<close>, and no other JSON value has a property with
  one of the names read here.
\<close>

fun read_prop :: "jval \<Rightarrow> string \<Rightarrow> err + jval option" where
  "read_prop JNull k =
     Inl (LibError ''TypeError'' (''Cannot read properties of null (reading '' @ [CHR 0x27] @ k @ [CHR 0x27] @ '')''))"
| "read_prop (JObj kvs) k = Inr (jget kvs k)"
| "read_prop _ k = Inr None"

section \<open>The transcript service: \<^verbatim>\<open>services/transcript-service.js\<close>\<close>

record transcript_input =
  t_studentId :: "jval option"
  t_gpa :: "jval option"
  t_detailedGrades :: "jval option"
  t_personalInfo :: "jval option"

definition required_string :: "jobj \<Rightarrow> string \<Rightarrow> err + unit" where
  "required_string obj k =
     (if \<not> truthy (jget obj k) \<or> \<not> is_string (jget obj k)
      then Inl (ValidationError (''personalInfo.'' @ k @ '' is required and must be a string''))
      else Inr ())"

definition optional_string :: "jobj \<Rightarrow> string \<Rightarrow> err + unit" where
  "optional_string obj k =
     (if truthy (jget obj k) \<and> \<not> is_string (jget obj k)
      then Inl (ValidationError (''personalInfo.'' @ k @ '' must be a string''))
      else Inr ())"

fun first_error :: "(err + unit) list \<Rightarrow> err + unit" where
  "first_error [] = Inr ()"
| "first_error (Inl e # rest) = Inl e"
| "first_error (Inr u # rest) = first_error rest"

definition check_grade :: "string \<times> jval \<Rightarrow> err + unit" where
  "check_grade sg =
     (if \<not> is_string_or_number (snd sg)
      then Inl (ValidationError (''Grade for subject \"'' @ fst sg @ ''\" must be a string or number''))
      else Inr ())"

definition validateTranscriptData :: "(string \<Rightarrow> bool) \<Rightarrow> transcript_input \<Rightarrow> err + unit" where
  "validateTranscriptData gpaOK td =
     (case t_studentId td of
        Some (JStr studentId) \<Rightarrow>
          if studentId = [] \<or> blank studentId
          then Inl (ValidationError ''studentId is required and must be a non-empty string'')
          else
            (case t_gpa td of
               Some (JStr gpa) \<Rightarrow>
                 if gpa = [] then Inl (ValidationError ''gpa is required and must be a string'')
                 else if \<not> gpaOK gpa
                 then Inl (ValidationError ''gpa must be a valid number between 0.0 and 4.0'')
                 else
                   (case t_detailedGrades td of
                      Some (JObj detailedGrades) \<Rightarrow>
                        (case first_error (map check_grade detailedGrades) of
                           Inl e \<Rightarrow> Inl e
                         | Inr _ \<Rightarrow>
                             (case t_personalInfo td of
                                Some (JObj personalInfo) \<Rightarrow>
                                  first_error
                                    [required_string personalInfo ''university'',
                                     required_string personalInfo ''major'',
                                     required_string personalInfo ''dateOfBirth'',
                                     required_string personalInfo ''gender'',
                                     optional_string personalInfo ''nationality'',
                                     optional_string personalInfo ''contactInfo'',
                                     optional_string personalInfo ''citizenId'']
                              | _ \<Rightarrow> Inl (ValidationError
                                           ''personalInfo is required and must be an object'')))
                    | _ \<Rightarrow> Inl (ValidationError
                                 ''detailedGrades is required and must be an object''))
             | _ \<Rightarrow> Inl (ValidationError ''gpa is required and must be a string''))
      | _ \<Rightarrow> Inl (ValidationError ''studentId is required and must be a non-empty string''))"

text \<open>
  The Fabric gateway is outside the repository. A \<open>network\<close> gives the outcome
  of each call that the services make on it: getting the contract for a user name,
  the transaction id of a proposal, the endorsement of a proposal (the payload that the
  chaincode returned, or the error thrown), the submission of the endorsed transaction,
  and the evaluation of a query.
\<close>

record proposal =
  p_function :: string
  p_arguments :: "string list"
  p_transientData :: "(string \<times> string) list"

record network =
  n_contract :: "string option \<Rightarrow> err + unit"
  n_transactionId :: "proposal \<Rightarrow> string"
  n_endorse :: "proposal \<Rightarrow> err + string"
  n_submit :: "proposal \<Rightarrow> err + string"
  n_evaluate :: "string \<Rightarrow> string list \<Rightarrow> err + string"

record transcript_result =
  r_success :: bool
  r_transactionId :: string
  r_transcriptHash :: "jval option"
  r_studentId :: string
  r_message :: string

text \<open>The \<^verbatim>\<open>catch\<close> block of \<^verbatim>\<open>addPrivateTranscript\<close>.\<close>

definition addPrivateTranscript_catch :: "err \<Rightarrow> err" where
  "addPrivateTranscript_catch error =
     (case error of
        ValidationError m \<Rightarrow> error
      | _ \<Rightarrow>
          let errorMessage = err_message error in
          if str_includes errorMessage ''UNAVAILABLE'' \<or>
             str_includes errorMessage ''connect ECONNREFUSED'' \<or>
             str_includes errorMessage ''Failed to connect''
          then ConnectionError ''Failed to connect to Fabric network. Service unavailable.''
          else if str_includes errorMessage ''endorsement policy'' \<or>
                  str_includes errorMessage ''failed to collect enough endorsements''
          then EndorsementError ''Transaction endorsement failed. Endorsement policy not satisfied.''
          else if str_includes errorMessage ''MVCC_READ_CONFLICT'' \<or>
                  str_includes errorMessage ''mvcc read conflict''
          then ConflictError ''Transaction conflict detected. Please retry the operation.''
          else if str_includes errorMessage ''transient'' \<or>
                  str_includes errorMessage ''expected transient data''
          then Error ''Required transient data is missing. Internal server error.''
          else Error (''Failed to update transcript: '' @ errorMessage))"

text \<open>The \<^verbatim>\<open>catch\<close> blocks of \<^verbatim>\<open>getTranscript\<close> and
  \<^verbatim>\<open>grantAccess\<close>.\<close>

definition getTranscript_catch :: "err \<Rightarrow> err" where
  "getTranscript_catch error =
     (case error of
        ValidationError m \<Rightarrow> error
      | _ \<Rightarrow> Error (''Failed to get transcript: '' @ err_message error))"

definition grantAccess_catch :: "err \<Rightarrow> err" where
  "grantAccess_catch error =
     (case error of
        ValidationError m \<Rightarrow> error
      | _ \<Rightarrow> Error (''Failed to grant access: '' @ err_message error))"

text \<open>
  The transient map that the client builds from the private fields
  (\<^verbatim>\<open>detailedGrades\<close>, \<^verbatim>\<open>gpa\<close>, \<^verbatim>\<open>personalInfo\<close>), and the value
  \<^verbatim>\<open>resultData\<close> that it reads from the payload of the endorsement.
\<close>

definition transientData :: "jval \<Rightarrow> string \<Rightarrow> jval option \<Rightarrow> (string \<times> string) list" where
  "transientData detailedGrades gpa personalInfo =
     [(''transcript'', stringify detailedGrades), (''gpa'', gpa)] @
     (case personalInfo of
        Some p \<Rightarrow> if truthy personalInfo then [(''personalInfo'', stringify p)] else []
      | None \<Rightarrow> [])"

definition resultData :: "(string \<Rightarrow> err + jval) \<Rightarrow> string \<Rightarrow> jval" where
  "resultData parse endorseResult =
     (if endorseResult \<noteq> []
      then (case parse endorseResult of
              Inr v \<Rightarrow> v
            | Inl e \<Rightarrow> JObj [(''raw'', JStr endorseResult)])
      else JObj [])"

text \<open>
  The body of the \<^verbatim>\<open>try\<close> block of \<^verbatim>\<open>addPrivateTranscript\<close>. After the
  validation the student id and the GPA are strings and the grades are there, so the
  last branch of the case distinction on them is never taken.
\<close>

definition addPrivateTranscript_try ::
  "(string \<Rightarrow> err + jval) \<Rightarrow> (string \<Rightarrow> bool) \<Rightarrow> network \<Rightarrow> transcript_input \<Rightarrow> string option
     \<Rightarrow> err + transcript_result" where
  "addPrivateTranscript_try parse gpaOK net td username =
     (case validateTranscriptData gpaOK td of
        Inl e \<Rightarrow> Inl e
      | Inr _ \<Rightarrow>
          (case (t_studentId td, t_gpa td, t_detailedGrades td) of
             (Some (JStr studentId), Some (JStr gpa), Some detailedGrades) \<Rightarrow>
               (case n_contract net username of
                  Inl e \<Rightarrow> Inl e
                | Inr _ \<Rightarrow>
                    let p = \<lparr>p_function = ''UpdateTranscript'',
                             p_arguments = [studentId],
                             p_transientData = transientData detailedGrades gpa (t_personalInfo td)\<rparr>;
                        transactionId = n_transactionId net p
                    in (case n_endorse net p of
                          Inl e \<Rightarrow> Inl e
                        | Inr endorseResult \<Rightarrow>
                            let rd = resultData parse endorseResult
                            in (case n_submit net p of
                                  Inl e \<Rightarrow> Inl e
                                | Inr _ \<Rightarrow>
                                    (case read_prop rd ''transcriptHash'' of
                                       Inl e \<Rightarrow> Inl e
                                     | Inr h \<Rightarrow>
                                         Inr \<lparr>r_success = True,
                                              r_transactionId = transactionId,
                                              r_transcriptHash = h,
                                              r_studentId = studentId,
                                              r_message =
                                                ''Transcript added to Private Data Collection successfully''\<rparr>))))
           | _ \<Rightarrow> Inl (LibError ''TypeError'' ''unreachable after validation'')))"

definition addPrivateTranscript ::
  "(string \<Rightarrow> err + jval) \<Rightarrow> (string \<Rightarrow> bool) \<Rightarrow> network \<Rightarrow> transcript_input \<Rightarrow> string option
     \<Rightarrow> err + transcript_result" where
  "addPrivateTranscript parse gpaOK net td username =
     (case addPrivateTranscript_try parse gpaOK net td username of
        Inl error \<Rightarrow> Inl (addPrivateTranscript_catch error)
      | Inr r \<Rightarrow> Inr r)"

text \<open>
  Following the words of the specification, not the source: the hash that
  \<^verbatim>\<open>submitPrivate\<close> is said to compute locally, the SHA-256 of the serialized
  private fields. No function of the source computes it.
\<close>

definition spec_local_hash :: "jval \<Rightarrow> string \<Rightarrow> jval \<Rightarrow> string" where
  "spec_local_hash detailedGrades gpa personalInfo =
     sha256 (stringify (JObj [(''transcript'', detailedGrades), (''gpa'', JStr gpa),
                              (''personalInfo'', personalInfo)]))"

definition stored_hash :: "ledger \<Rightarrow> string \<Rightarrow> jval option" where
  "stored_hash l studentId =
     (case world l (''transcript-'' @ studentId) of
        None \<Rightarrow> None
      | Some metadata \<Rightarrow> jget metadata ''transcriptHash'')"

definition stored_hash_of :: "err + (ledger \<times> string) \<Rightarrow> string \<Rightarrow> jval option" where
  "stored_hash_of outcome studentId =
     (case outcome of Inl e \<Rightarrow> None | Inr (l, r) \<Rightarrow> stored_hash l studentId)"

text \<open>
  Concrete private fields and contexts for the examples. \<open>parse_demo\<close> is
  \<^verbatim>\<open>JSON.parse\<close> on the texts that the examples parse, and
  \<open>gpaOK_demo\<close> the range check on the GPA "3.6". The network
  \<open>net_tampered\<close> endorses and submits one proposal only, the one that carries
  the serialized private fields of the example, and answers the endorsement with a
  hash of its own.
\<close>

definition grades_demo :: jval where
  "grades_demo = JObj [(''math'', JStr ''9'')]"

definition info_demo :: jval where
  "info_demo = JObj [(''university'', JStr ''KMA''), (''major'', JStr ''IT''),
                     (''dateOfBirth'', JStr ''2000-01-01''), (''gender'', JStr ''F'')]"

definition parse_demo :: "string \<Rightarrow> err + jval" where
  "parse_demo = parse_of [grades_demo, info_demo, JObj [(''transcriptHash'', JStr ''00'')],
                          JObj [(''degreeId'', JStr ''D1'')]]"

definition gpaOK_demo :: "string \<Rightarrow> bool" where
  "gpaOK_demo gpa = (gpa = ''3.6'')"

definition update_ctx :: "string \<Rightarrow> ctx" where
  "update_ctx time =
     \<lparr>attrs = [''ou'' \<mapsto> ''admin''], mspid = ''Org1MSP'', txTimestamp = time,
      transient = map_of (transientData grades_demo ''3.6'' (Some info_demo))\<rparr>"

definition td_demo :: transcript_input where
  "td_demo = \<lparr>t_studentId = Some (JStr ''S1''), t_gpa = Some (JStr ''3.6''),
               t_detailedGrades = Some grades_demo, t_personalInfo = Some info_demo\<rparr>"



section \<open>The degree service: \<^verbatim>\<open>services/degree-service.js\<close>\<close>

text \<open>The \<^verbatim>\<open>catch\<close> blocks of \<^verbatim>\<open>issueDegree\<close>,
  \<^verbatim>\<open>verifyDegree\<close>, \<^verbatim>\<open>getDegreesByStudent\<close> and
  \<^verbatim>\<open>revokeDegree\<close>: what each one throws for the error it caught.\<close>

definition issueDegree_catch :: "err \<Rightarrow> err" where
  "issueDegree_catch error =
     (case error of
        ValidationError m \<Rightarrow> error
      | _ \<Rightarrow>
          let errorMessage = err_message error in
          if str_includes errorMessage ''UNAVAILABLE'' \<or>
             str_includes errorMessage ''connect ECONNREFUSED'' \<or>
             str_includes errorMessage ''Failed to connect''
          then ConnectionError ''Failed to connect to Fabric network. Service unavailable.''
          else if str_includes errorMessage ''endorsement policy'' \<or>
                  str_includes errorMessage ''failed to collect enough endorsements''
          then EndorsementError ''Transaction endorsement failed. Endorsement policy not satisfied.''
          else if str_includes errorMessage ''MVCC_READ_CONFLICT'' \<or>
                  str_includes errorMessage ''mvcc read conflict''
          then ConflictError ''Transaction conflict detected. Please retry the operation.''
          else Error (''Failed to issue degree: '' @ errorMessage))"

definition verifyDegree_catch :: "string \<Rightarrow> err \<Rightarrow> err" where
  "verifyDegree_catch degreeId error =
     (case error of
        ValidationError m \<Rightarrow> error
      | NotFoundError m \<Rightarrow> error
      | _ \<Rightarrow>
          let errorMessage = err_message error in
          if str_includes errorMessage ''UNAVAILABLE'' \<or>
             str_includes errorMessage ''connect ECONNREFUSED'' \<or>
             str_includes errorMessage ''Failed to connect''
          then ConnectionError ''Failed to connect to Fabric network. Service unavailable.''
          else if str_includes errorMessage ''does not exist''
          then NotFoundError (''Degree with ID '' @ degreeId @ '' not found'')
          else Error (''Failed to verify degree: '' @ errorMessage))"

definition getDegreesByStudent_catch :: "err \<Rightarrow> err" where
  "getDegreesByStudent_catch error =
     (case error of
        ValidationError m \<Rightarrow> error
      | _ \<Rightarrow> Error (''Failed to get degrees: '' @ err_message error))"

definition revokeDegree_catch :: "err \<Rightarrow> err" where
  "revokeDegree_catch error =
     (case error of
        ValidationError m \<Rightarrow> error
      | _ \<Rightarrow>
          let errorMessage = err_message error in
          if str_includes errorMessage ''UNAVAILABLE''
          then ConnectionError ''Service unavailable.''
          else if str_includes errorMessage ''endorsement policy''
          then EndorsementError ''Endorsement failed.''
          else if str_includes errorMessage ''MVCC_READ_CONFLICT''
          then ConflictError ''Conflict detected.''
          else Error (''Failed to revoke degree: '' @ errorMessage))"

text \<open>
  \<^verbatim>\<open>verifyDegree\<close>. The payload of the query is parsed; when that fails, the
  text from its first brace on is parsed instead. The spread
  \<^verbatim>\<open>{...degreeData, status: status}\<close> copies the own properties of the parsed
  value: the keys of an object, the indices of an array or of a string, nothing for a
  number or a boolean.
\<close>

fun show_nat :: "nat \<Rightarrow> string" where
  "show_nat n = (if n < 10 then [char_of (48 + n)] else show_nat (n div 10) @ [char_of (48 + n mod 10)])"

fun spread :: "jval \<Rightarrow> jobj" where
  "spread (JObj kvs) = kvs"
| "spread (JArr xs) = zip (map show_nat [0..<length xs]) xs"
| "spread (JStr s) = zip (map show_nat [0..<length s]) (map (\<lambda>c. JStr [c]) s)"
| "spread _ = []"

definition parse_recover :: "(string \<Rightarrow> err + jval) \<Rightarrow> string \<Rightarrow> err + jval" where
  "parse_recover parse resultString =
     (case parse resultString of
        Inr degreeData \<Rightarrow> Inr degreeData
      | Inl parseError \<Rightarrow>
          let cleanedString = dropWhile (\<lambda>c. c \<noteq> CHR ''{'') resultString;
              failed = Error (''Failed to parse degree data: '' @ err_message parseError @
                              ''. Raw: '' @ resultString)
          in if cleanedString = [] then Inl failed
             else (case parse cleanedString of
                     Inr degreeData \<Rightarrow> Inr degreeData
                   | Inl retryError \<Rightarrow> Inl failed))"

text \<open>\<^verbatim>\<open>degreeData.status || 'ACTIVE'\<close>, on the value read from the
  parsed record (\<open>None\<close> when it has no \<^verbatim>\<open>status\<close>).\<close>

definition status_or_active :: "jval option \<Rightarrow> jval" where
  "status_or_active st =
     (case st of
        Some v \<Rightarrow> if truthy st then v else JStr ''ACTIVE''
      | None \<Rightarrow> JStr ''ACTIVE'')"

record verify_result =
  v_success :: bool
  v_verified :: bool
  v_degree :: jobj

definition verifyDegree_try ::
  "(string \<Rightarrow> err + jval) \<Rightarrow> network \<Rightarrow> string \<Rightarrow> string option \<Rightarrow> err + verify_result" where
  "verifyDegree_try parse net degreeId username =
     (if degreeId = [] \<or> blank degreeId
      then Inl (ValidationError ''degreeId is required and must be a non-empty string'')
      else
        (case n_contract net username of
           Inl e \<Rightarrow> Inl e
         | Inr _ \<Rightarrow>
             (case n_evaluate net ''QueryDegree'' [degreeId] of
                Inl e \<Rightarrow> Inl e
              | Inr resultString \<Rightarrow>
                  if resultString = [] \<or> blank resultString
                  then Inl (NotFoundError (''Degree with ID '' @ degreeId @ '' not found''))
                  else
                    (case parse_recover parse resultString of
                       Inl e \<Rightarrow> Inl e
                     | Inr degreeData \<Rightarrow>
                         (case read_prop degreeData ''status'' of
                            Inl e \<Rightarrow> Inl e
                          | Inr st \<Rightarrow>
                              let status = status_or_active st
                              in Inr \<lparr>v_success = True,
                                      v_verified = (status = JStr ''ACTIVE''),
                                      v_degree = jset (spread degreeData) ''status'' status\<rparr>)))))"

definition verifyDegree ::
  "(string \<Rightarrow> err + jval) \<Rightarrow> network \<Rightarrow> string \<Rightarrow> string option \<Rightarrow> err + verify_result" where
  "verifyDegree parse net degreeId username =
     (case verifyDegree_try parse net degreeId username of
        Inl error \<Rightarrow> Inl (verifyDegree_catch degreeId error)
      | Inr r \<Rightarrow> Inr r)"

definition net_query :: "string \<Rightarrow> network" where
  "net_query payload =
     \<lparr>n_contract = (\<lambda>username. Inr ()),
      n_transactionId = (\<lambda>p. ''tx1''),
      n_endorse = (\<lambda>p. Inr []),
      n_submit = (\<lambda>p. Inr []),
      n_evaluate = (\<lambda>f args. Inr payload)\<rparr>"

section \<open>The error handler: \<^verbatim>\<open>middleware/error-handler.js\<close>\<close>

record classification =
  statusCode :: nat
  errorCode :: string
  message :: string

definition err_toString :: "err \<Rightarrow> string" where
  "err_toString e =
     (if err_message e = [] then err_name e
      else if err_name e = [] then err_message e
      else err_name e @ '': '' @ err_message e)"

definition detectFabricError :: "err \<Rightarrow> classification option" where
  "detectFabricError e =
     (let errorMessage = err_message e;
          errorString = toLowerCase (err_toString e)
      in
      if str_includes errorMessage ''UNAVAILABLE'' \<or>
         str_includes errorMessage ''connect ECONNREFUSED'' \<or>
         str_includes errorMessage ''Failed to connect'' \<or>
         str_includes errorMessage ''14 UNAVAILABLE'' \<or>
         (str_includes errorString ''grpc'' \<and> str_includes errorString ''unavailable'')
      then Some \<lparr>statusCode = 503, errorCode = ''GRPC_UNAVAILABLE'',
                 message = ''Service temporarily unavailable. Please try again later.''\<rparr>
      else if str_includes errorMessage ''endorsement policy'' \<or>
              str_includes errorMessage ''ENDORSEMENT_POLICY_FAILURE'' \<or>
              str_includes errorMessage ''failed to collect enough endorsements'' \<or>
              str_includes errorMessage ''signature set did not satisfy policy''
      then Some \<lparr>statusCode = 500, errorCode = ''ENDORSEMENT_POLICY_FAILURE'',
                 message = ''Transaction endorsement failed. Endorsement policy not satisfied.''\<rparr>
      else if str_includes errorMessage ''MVCC_READ_CONFLICT'' \<or>
              str_includes errorMessage ''mvcc read conflict'' \<or>
              str_includes errorMessage ''version mismatch''
      then Some \<lparr>statusCode = 409, errorCode = ''MVCC_READ_CONFLICT'',
                 message = ''Transaction conflict detected. Please retry the operation.''\<rparr>
      else if str_includes errorMessage ''transient'' \<or>
              str_includes errorMessage ''TRANSIENT_DATA_MISSING'' \<or>
              str_includes errorMessage ''expected transient data''
      then Some \<lparr>statusCode = 500, errorCode = ''TRANSIENT_DATA_MISSING'',
                 message = ''Required transient data is missing. Internal server error.''\<rparr>
      else if str_includes errorMessage ''validation'' \<or>
              str_includes errorMessage ''invalid input'' \<or>
              str_includes errorMessage ''chaincode error'' \<or>
              (str_includes errorMessage ''does not exist'' \<and> \<not> str_includes errorMessage ''Degree'')
      then Some \<lparr>statusCode = 400, errorCode = ''CHAINCODE_VALIDATION_ERROR'',
                 message = (if errorMessage = [] then ''Invalid input data rejected by chaincode.''
                            else errorMessage)\<rparr>
      else None)"

text \<open>The response that \<^verbatim>\<open>errorHandler\<close> sends: the HTTP status and the body
  (without its time stamp).\<close>

record response =
  res_status :: nat
  res_success :: bool
  res_error :: string
  res_code :: string

definition custom_class :: "err \<Rightarrow> (nat \<times> string) option" where
  "custom_class e =
     (case e of
        ValidationError m \<Rightarrow> Some (400, ''VALIDATION_ERROR'')
      | NotFoundError m \<Rightarrow> Some (404, ''NOT_FOUND'')
      | ConflictError m \<Rightarrow> Some (409, ''MVCC_READ_CONFLICT'')
      | EndorsementError m \<Rightarrow> Some (500, ''ENDORSEMENT_POLICY_FAILURE'')
      | ConnectionError m \<Rightarrow> Some (503, ''GRPC_UNAVAILABLE'')
      | _ \<Rightarrow> None)"

definition errorHandler :: "err \<Rightarrow> response" where
  "errorHandler e =
     (case custom_class e of
        Some (status, code) \<Rightarrow>
          \<lparr>res_status = status, res_success = False, res_error = err_message e, res_code = code\<rparr>
      | None \<Rightarrow>
          (case detectFabricError e of
             Some fabricError \<Rightarrow>
               \<lparr>res_status = statusCode fabricError, res_success = False,
                res_error = message fabricError, res_code = errorCode fabricError\<rparr>
           | None \<Rightarrow>
               \<lparr>res_status = 500, res_success = False,
                res_error = (if err_message e \<noteq> [] then err_message e
                             else ''An unexpected error occurred''),
                res_code = ''INTERNAL_SERVER_ERROR''\<rparr>))"

text \<open>
  For the properties: the errors that are no \<^verbatim>\<open>ValidationError\<close> and those
  that are no \<^verbatim>\<open>NotFoundError\<close> (the \<^verbatim>\<open>instanceof\<close> tests of the
  catch blocks), the failure that the chaincode throws when transient data is missing,
  and a network on which every endorsement and every query fails with a given error.
\<close>

definition e_transient :: err where
  "e_transient = Error ''Missing required transient data: transcript and gpa''"

definition not_validation :: "err \<Rightarrow> bool" where
  "not_validation e = (case e of ValidationError m \<Rightarrow> False | _ \<Rightarrow> True)"

definition not_notfound :: "err \<Rightarrow> bool" where
  "not_notfound e = (case e of NotFoundError m \<Rightarrow> False | _ \<Rightarrow> True)"

definition net_failing :: "err \<Rightarrow> network" where
  "net_failing e =
     \<lparr>n_contract = (\<lambda>username. Inr ()),
      n_transactionId = (\<lambda>p. ''tx1''),
      n_endorse = (\<lambda>p. Inl e),
      n_submit = (\<lambda>p. Inr []),
      n_evaluate = (\<lambda>f args. Inl e)\<rparr>"

text \<open>
  A degree issued under the id "transcript-S1" and revoked, then the transcript of
  the student "S1" updated. \<open>net_ledger\<close> is the network that evaluates
  \<^verbatim>\<open>QueryDegree\<close> on a given ledger, and \<open>parse_ledger\<close> is
  \<^verbatim>\<open>JSON.parse\<close> on the text of the record under a given key.
\<close>

definition collision_txs :: "(ctx \<times> tx) list" where
  "collision_txs =
     [(admin_ctx, TxIssueDegree (d1_args\<lparr>a_degreeId := ''transcript-S1''\<rparr>)),
      (admin_ctx, TxRevokeDegree ''transcript-S1'' ''fraud''),
      (update_ctx ''2025-01-02T00:00:00.000Z'', TxUpdateTranscript ''S1'')]"

definition net_ledger :: "ledger \<Rightarrow> network" where
  "net_ledger l =
     \<lparr>n_contract = (\<lambda>username. Inr ()),
      n_transactionId = (\<lambda>p. ''tx1''),
      n_endorse = (\<lambda>p. Inr []),
      n_submit = (\<lambda>p. Inr []),
      n_evaluate = (\<lambda>f args. case args of
                                [degreeId] \<Rightarrow> if f = ''QueryDegree'' then QueryDegree l degreeId
                                               else Inl (Error ''unknown function'')
                              | _ \<Rightarrow> Inl (Error ''wrong number of arguments''))\<rparr>"

definition parse_ledger :: "ledger \<Rightarrow> string \<Rightarrow> string \<Rightarrow> err + jval" where
  "parse_ledger l k = parse_of (case world l k of None \<Rightarrow> [] | Some d \<Rightarrow> [JObj d])"

section \<open>The gateway connection: \<^verbatim>\<open>fabric/gateway-connection.js\<close>\<close>

text \<open>
  The libraries that the module calls are parameters, collected in \<open>sdk\<close>:
  \<^verbatim>\<open>fs.readFile\<close>, \<^verbatim>\<open>crypto.createPrivateKey\<close> (it gives the
  \<^verbatim>\<open>asymmetricKeyType\<close> of the key, \<^verbatim>\<open>undefined\<close> being \<open>None\<close>),
  \<^verbatim>\<open>signers.newPrivateKeySigner\<close>, \<^verbatim>\<open>forge.pki.privateKeyFromPem\<close>,
  \<^verbatim>\<open>connect\<close> of the Fabric gateway, the \<^verbatim>\<open>close\<close> methods of a gateway
  and of a gRPC client, and the wallet. Each returns its value or the error it throws.
  A gRPC client is known by the number under which it was created. An error is kept
  with its class, name and message; the \<^verbatim>\<open>code\<close> that
  \<^verbatim>\<open>connectWithUserIdentity\<close> attaches to the error for a missing identity is
  not.
\<close>

datatype signer = PrivateKeySigner string | RSASigner string

record wallet_identity =
  w_mspId :: string
  w_certificate :: string
  w_privateKey :: string

record config =
  PEER_ENDPOINT :: string
  MSP_ID :: string
  CERT_PATH :: string
  KEY_PATH :: string
  TLS_CERT_PATH :: string

record sdk =
  readFile :: "string \<Rightarrow> err + string"
  createPrivateKey :: "string \<Rightarrow> err + string option"
  newPrivateKeySigner :: "string \<Rightarrow> err + signer"
  privateKeyFromPem :: "string \<Rightarrow> err + string"
  connect_throws :: "nat \<Rightarrow> err option"
  gateway_close_throws :: "nat \<Rightarrow> err option"
  client_close_throws :: "nat \<Rightarrow> err option"
  getIdentity :: "string \<Rightarrow> err + wallet_identity option"
  fabric_config :: config

definition loadCertificate :: "sdk \<Rightarrow> string \<Rightarrow> err + string" where
  "loadCertificate lib certPath =
     (case readFile lib certPath of
        Inr certContent \<Rightarrow> Inr certContent
      | Inl error \<Rightarrow> Inl (Error (''Failed to load certificate from '' @ certPath @ '': '' @
                                err_message error)))"

definition loadPrivateKey :: "sdk \<Rightarrow> string \<Rightarrow> err + string" where
  "loadPrivateKey lib keyPath =
     (case readFile lib keyPath of
        Inr keyContent \<Rightarrow> Inr keyContent
      | Inl error \<Rightarrow> Inl (Error (''Failed to load private key from '' @ keyPath @ '': '' @
                                err_message error)))"

definition loadTlsRootCertificate :: "sdk \<Rightarrow> string \<Rightarrow> err + string" where
  "loadTlsRootCertificate lib tlsCertPath =
     (case readFile lib tlsCertPath of
        Inr tlsCertContent \<Rightarrow> Inr tlsCertContent
      | Inl error \<Rightarrow> Inl (Error (''Failed to load TLS certificate from '' @ tlsCertPath @ '': '' @
                                err_message error)))"

record identity =
  mspId :: string
  credentials :: string

definition createIdentity :: "string \<Rightarrow> string \<Rightarrow> identity" where
  "createIdentity msp certificate = \<lparr>mspId = msp, credentials = certificate\<rparr>"

definition createRSASigner :: "sdk \<Rightarrow> string \<Rightarrow> err + signer" where
  "createRSASigner lib privateKeyPem =
     (case privateKeyFromPem lib privateKeyPem of
        Inl e \<Rightarrow> Inl e
      | Inr privateKeyForge \<Rightarrow> Inr (RSASigner privateKeyForge))"

definition key_type_text :: "string option \<Rightarrow> string" where
  "key_type_text keyType = (case keyType of None \<Rightarrow> ''undefined'' | Some t \<Rightarrow> t)"

definition createSigner :: "sdk \<Rightarrow> string \<Rightarrow> err + signer" where
  "createSigner lib privateKey =
     (case createPrivateKey lib privateKey of
        Inl error \<Rightarrow> Inl error
      | Inr keyType \<Rightarrow>
          if keyType = Some ''ec'' then newPrivateKeySigner lib privateKey
          else if keyType = Some ''rsa'' \<or> keyType = Some ''rsa-pss''
          then createRSASigner lib privateKey
          else Inl (Error (''Unsupported key type: '' @ key_type_text keyType)))"

text \<open>
  The options of a gateway are four functions that give the deadline of a call from
  the clock (\<^verbatim>\<open>Date.now()\<close>, in milliseconds) at the time of the call.
\<close>

record gateway_options =
  evaluateOptions :: "int \<Rightarrow> int"
  endorseOptions :: "int \<Rightarrow> int"
  submitOptions :: "int \<Rightarrow> int"
  commitStatusOptions :: "int \<Rightarrow> int"

record gateway =
  gw_client :: nat
  gw_identity :: identity
  gw_signer :: signer
  gw_options :: gateway_options

definition connectToGateway :: "sdk \<Rightarrow> nat \<Rightarrow> identity \<Rightarrow> signer \<Rightarrow> err + gateway" where
  "connectToGateway lib client ident signr =
     (case connect_throws lib client of
        Some error \<Rightarrow> Inl (Error (''Failed to connect to Fabric Gateway: '' @ err_message error))
      | None \<Rightarrow>
          Inr \<lparr>gw_client = client, gw_identity = ident, gw_signer = signr,
               gw_options = \<lparr>evaluateOptions = (\<lambda>now. now + 5000),
                              endorseOptions = (\<lambda>now. now + 15000),
                              submitOptions = (\<lambda>now. now + 5000),
                              commitStatusOptions = (\<lambda>now. now + 60000)\<rparr>\<rparr>)"

text \<open>
  The manager: its default gateway and client, the flag \<^verbatim>\<open>isConnected\<close> and
  the \<^verbatim>\<open>Map\<close> of the user gateways, in insertion order. With it go the gRPC
  clients created so far (their count) and the gateways and clients closed so far.
\<close>

record cached =
  c_gateway :: gateway
  c_client :: nat
  c_lastUsed :: int

record manager =
  m_gateway :: "gateway option"
  m_client :: "nat option"
  m_isConnected :: bool
  m_userGateways :: "(string \<times> cached) list"
  clients_created :: nat
  closed_gateways :: "nat list"
  closed_clients :: "nat list"

definition new_manager :: manager where
  "new_manager = \<lparr>m_gateway = None, m_client = None, m_isConnected = False,
                   m_userGateways = [], clients_created = 0,
                   closed_gateways = [], closed_clients = []\<rparr>"

fun map_set :: "('k \<times> 'v) list \<Rightarrow> 'k \<Rightarrow> 'v \<Rightarrow> ('k \<times> 'v) list" where
  "map_set [] k v = [(k, v)]"
| "map_set ((k', v') # rest) k v =
     (if k' = k then (k, v) # rest else (k', v') # map_set rest k v)"

definition map_delete :: "('k \<times> 'v) list \<Rightarrow> 'k \<Rightarrow> ('k \<times> 'v) list" where
  "map_delete m k = filter (\<lambda>kv. fst kv \<noteq> k) m"

definition connect :: "sdk \<Rightarrow> manager \<Rightarrow> manager \<times> (err + unit)" where
  "connect lib m =
     (if m_isConnected m then (m, Inr ())
      else
        (case loadCertificate lib (CERT_PATH (fabric_config lib)) of
           Inl e \<Rightarrow> (m, Inl e)
         | Inr certificate \<Rightarrow>
             (case loadPrivateKey lib (KEY_PATH (fabric_config lib)) of
                Inl e \<Rightarrow> (m, Inl e)
              | Inr privateKey \<Rightarrow>
                  (case loadTlsRootCertificate lib (TLS_CERT_PATH (fabric_config lib)) of
                     Inl e \<Rightarrow> (m, Inl e)
                   | Inr tlsRootCert \<Rightarrow>
                       (case createSigner lib privateKey of
                          Inl e \<Rightarrow> (m, Inl e)
                        | Inr signr \<Rightarrow>
                            let client = clients_created m;
                                m1 = m\<lparr>m_client := Some client, clients_created := client + 1\<rparr>
                            in (case connectToGateway lib client
                                       (createIdentity (MSP_ID (fabric_config lib)) certificate) signr of
                                  Inl e \<Rightarrow> (m1, Inl e)
                                | Inr gw \<Rightarrow>
                                    (m1\<lparr>m_gateway := Some gw, m_isConnected := True\<rparr>, Inr ())))))))"

text \<open>
  \<^verbatim>\<open>connectWithUserIdentity\<close> is an \<^verbatim>\<open>async\<close> function with three
  \<^verbatim>\<open>await\<close>s. Between two of them it runs without interruption; at each of them
  other calls may run. A call is therefore a task with a program point, and
  \<open>advance\<close> runs it from one program point to the next, at the clock \<open>now\<close>.
\<close>

datatype pc =
    Called
  | AwaitIdentity
  | AwaitTls wallet_identity
  | AwaitGateway nat "err + gateway"
  | Returned "err + gateway"

fun advance :: "sdk \<Rightarrow> int \<Rightarrow> string \<Rightarrow> manager \<Rightarrow> pc \<Rightarrow> manager \<times> pc" where
  "advance lib now username m Called =
     (if username = []
      then (m, Returned (Inl (Error ''Username is required for user identity connection'')))
      else (case map_of (m_userGateways m) username of
              Some cachedGateway \<Rightarrow>
                (m\<lparr>m_userGateways :=
                     map_set (m_userGateways m) username (cachedGateway\<lparr>c_lastUsed := now\<rparr>)\<rparr>,
                 Returned (Inr (c_gateway cachedGateway)))
            | None \<Rightarrow> (m, AwaitIdentity)))"
| "advance lib now username m AwaitIdentity =
     (case getIdentity lib username of
        Inl e \<Rightarrow> (m, Returned (Inl e))
      | Inr None \<Rightarrow>
          (m, Returned (Inl (Error (''Identity for user '' @ username @ '' not found in wallet''))))
      | Inr (Some ident) \<Rightarrow> (m, AwaitTls ident))"
| "advance lib now username m (AwaitTls ident) =
     (case loadTlsRootCertificate lib (TLS_CERT_PATH (fabric_config lib)) of
        Inl e \<Rightarrow> (m, Returned (Inl e))
      | Inr tlsRootCert \<Rightarrow>
          (case createSigner lib (w_privateKey ident) of
             Inl e \<Rightarrow> (m, Returned (Inl e))
           | Inr userSigner \<Rightarrow>
               let userClient = clients_created m
               in (m\<lparr>clients_created := userClient + 1\<rparr>,
                   AwaitGateway userClient
                     (connectToGateway lib userClient
                        (createIdentity (w_mspId ident) (w_certificate ident)) userSigner))))"
| "advance lib now username m (AwaitGateway userClient outcome) =
     (case outcome of
        Inl e \<Rightarrow> (m, Returned (Inl e))
      | Inr userGateway \<Rightarrow>
          (m\<lparr>m_userGateways :=
               map_set (m_userGateways m) username
                 \<lparr>c_gateway = userGateway, c_client = userClient, c_lastUsed = now\<rparr>\<rparr>,
           Returned (Inr userGateway)))"
| "advance lib now username m (Returned r) = (m, Returned r)"


text \<open>
  Several calls in flight: the tasks with their user names, and a schedule that names
  the task to advance at each turn and the clock at that turn.
\<close>

fun run_schedule ::
  "sdk \<Rightarrow> (nat \<times> int) list \<Rightarrow> manager \<times> (string \<times> pc) list \<Rightarrow> manager \<times> (string \<times> pc) list" where
  "run_schedule lib [] cfg = cfg"
| "run_schedule lib ((i, now) # rest) (m, tasks) =
     (if i < length tasks
      then (let (m', p') = advance lib now (fst (tasks ! i)) m (snd (tasks ! i))
            in run_schedule lib rest (m', tasks[i := (fst (tasks ! i), p')]))
      else run_schedule lib rest (m, tasks))"

text \<open>
  \<^verbatim>\<open>disconnectUserGateway\<close> closes the gateway and the client of a user and
  deletes the entry; when one of the two \<^verbatim>\<open>close\<close> calls throws, the error is
  caught and logged, and the entry stays.
\<close>

definition disconnectUserGateway :: "sdk \<Rightarrow> string \<Rightarrow> manager \<Rightarrow> manager" where
  "disconnectUserGateway lib username m =
     (case map_of (m_userGateways m) username of
        None \<Rightarrow> m
      | Some entry \<Rightarrow>
          (case gateway_close_throws lib (gw_client (c_gateway entry)) of
             Some error \<Rightarrow> m
           | None \<Rightarrow>
               let m1 = m\<lparr>closed_gateways := closed_gateways m @ [gw_client (c_gateway entry)]\<rparr>
               in (case client_close_throws lib (c_client entry) of
                     Some error \<Rightarrow> m1
                   | None \<Rightarrow>
                       m1\<lparr>closed_clients := closed_clients m1 @ [c_client entry],
                          m_userGateways := map_delete (m_userGateways m1) username\<rparr>)))"

fun disconnect_loop :: "sdk \<Rightarrow> (string \<times> cached) list \<Rightarrow> manager \<Rightarrow> manager" where
  "disconnect_loop lib [] m = m"
| "disconnect_loop lib ((username, entry) # rest) m =
     disconnect_loop lib rest (disconnectUserGateway lib username m)"

definition disconnectAllUserGateways :: "sdk \<Rightarrow> manager \<Rightarrow> manager" where
  "disconnectAllUserGateways lib m = disconnect_loop lib (m_userGateways m) m"

definition disconnect :: "sdk \<Rightarrow> manager \<Rightarrow> manager \<times> (err + unit)" where
  "disconnect lib m =
     (if \<not> m_isConnected m \<and> m_userGateways m = [] then (m, Inr ())
      else
        let m1 = disconnectAllUserGateways lib m
        in (case (case m_gateway m1 of
                    None \<Rightarrow> Inr m1
                  | Some gw \<Rightarrow>
                      (case gateway_close_throws lib (gw_client gw) of
                         Some error \<Rightarrow> Inl error
                       | None \<Rightarrow> Inr (m1\<lparr>closed_gateways := closed_gateways m1 @ [gw_client gw],
                                          m_gateway := None\<rparr>))) of
              Inl error \<Rightarrow> (m1, Inl error)
            | Inr m2 \<Rightarrow>
                (case m_client m2 of
                   None \<Rightarrow> (m2\<lparr>m_isConnected := False\<rparr>, Inr ())
                 | Some client \<Rightarrow>
                     (case client_close_throws lib client of
                        Some error \<Rightarrow> (m2, Inl error)
                      | None \<Rightarrow>
                          (m2\<lparr>closed_clients := closed_clients m2 @ [client],
                              m_client := None, m_isConnected := False\<rparr>, Inr ())))))"




fun cleanup_loop ::
  "sdk \<Rightarrow> int \<Rightarrow> int \<Rightarrow> (string \<times> cached) list \<Rightarrow> manager \<times> nat \<Rightarrow> manager \<times> nat" where
  "cleanup_loop lib now maxAge [] (m, cleanedCount) = (m, cleanedCount)"
| "cleanup_loop lib now maxAge ((username, entry) # rest) (m, cleanedCount) =
     (if now - c_lastUsed entry > maxAge
      then cleanup_loop lib now maxAge rest (disconnectUserGateway lib username m, cleanedCount + 1)
      else cleanup_loop lib now maxAge rest (m, cleanedCount))"

definition cleanupStaleConnections :: "sdk \<Rightarrow> int \<Rightarrow> int option \<Rightarrow> manager \<Rightarrow> manager \<times> nat" where
  "cleanupStaleConnections lib now maxAge m =
     cleanup_loop lib now (case maxAge of None \<Rightarrow> 30 * 60 * 1000 | Some a \<Rightarrow> a)
       (m_userGateways m) (m, 0)"

text \<open>
  The configurations that the manager can be in: it starts empty; calls of
  \<^verbatim>\<open>connectWithUserIdentity\<close> arrive and advance in any order, and the other
  methods run in between.
\<close>

inductive mgr_reachable :: "sdk \<Rightarrow> manager \<times> (string \<times> pc) list \<Rightarrow> bool"
  for lib :: sdk where
  reach_new: "mgr_reachable lib (new_manager, [])"
| reach_call: "mgr_reachable lib (m, tasks) \<Longrightarrow> mgr_reachable lib (m, tasks @ [(username, Called)])"
| reach_turn: "mgr_reachable lib (m, tasks) \<Longrightarrow> mgr_reachable lib (run_schedule lib [(i, now)] (m, tasks))"
| reach_connect: "mgr_reachable lib (m, tasks) \<Longrightarrow> mgr_reachable lib (fst (connect lib m), tasks)"
| reach_disconnect: "mgr_reachable lib (m, tasks) \<Longrightarrow> mgr_reachable lib (fst (disconnect lib m), tasks)"
| reach_disconnectUser:
    "mgr_reachable lib (m, tasks) \<Longrightarrow> mgr_reachable lib (disconnectUserGateway lib username m, tasks)"
| reach_cleanup:
    "mgr_reachable lib (m, tasks) \<Longrightarrow>
       mgr_reachable lib (fst (cleanupStaleConnections lib now maxAge m), tasks)"

fun pc_gateways :: "pc \<Rightarrow> gateway list" where
  "pc_gateways (AwaitGateway client (Inr g)) = [g]"
| "pc_gateways (Returned (Inr g)) = [g]"
| "pc_gateways _ = []"

definition gateways_of :: "manager \<times> (string \<times> pc) list \<Rightarrow> gateway list" where
  "gateways_of cfg =
     (case m_gateway (fst cfg) of None \<Rightarrow> [] | Some g \<Rightarrow> [g]) @
     map (\<lambda>kv. c_gateway (snd kv)) (m_userGateways (fst cfg)) @
     concat (map (\<lambda>t. pc_gateways (snd t)) (snd cfg))"

definition default_options :: gateway_options where
  "default_options = \<lparr>evaluateOptions = (\<lambda>now. now + 5000),
                       endorseOptions = (\<lambda>now. now + 15000),
                       submitOptions = (\<lambda>now. now + 5000),
                       commitStatusOptions = (\<lambda>now. now + 60000)\<rparr>"

text \<open>Concrete libraries and managers for the examples.\<close>

definition alice_identity :: wallet_identity where
  "alice_identity = \<lparr>w_mspId = ''Org1MSP'', w_certificate = ''alice-cert'', w_privateKey = ''alice-ec-key''\<rparr>"

definition sdk_demo :: sdk where
  "sdk_demo =
     \<lparr>readFile = (\<lambda>path. Inr path),
      createPrivateKey = (\<lambda>key. if key = ''alice-ec-key'' then Inr (Some ''ec'')
                                 else if key = ''ed25519-key'' then Inr (Some ''ed25519'')
                                 else Inr (Some ''rsa'')),
      newPrivateKeySigner = (\<lambda>key. Inr (PrivateKeySigner key)),
      privateKeyFromPem = (\<lambda>key. Inr key),
      connect_throws = (\<lambda>client. None),
      gateway_close_throws = (\<lambda>client. None),
      client_close_throws = (\<lambda>client. None),
      getIdentity = (\<lambda>username. if username = ''alice'' then Inr (Some alice_identity) else Inr None),
      fabric_config = \<lparr>PEER_ENDPOINT = ''localhost:7051'', MSP_ID = ''Org1MSP'',
                        CERT_PATH = ''cert.pem'', KEY_PATH = ''key.pem'',
                        TLS_CERT_PATH = ''tls.pem''\<rparr>\<rparr>"








text \<open>
  The invariant of the reachable configurations: every gateway has the default
  options, and the keys of the cache are distinct.
\<close>

definition mgr_inv :: "manager \<Rightarrow> bool" where
  "mgr_inv m =
     ((\<forall>g. m_gateway m = Some g \<longrightarrow> gw_options g = default_options)
      \<and> (\<forall>kv \<in> set (m_userGateways m). gw_options (c_gateway (snd kv)) = default_options)
      \<and> distinct (map fst (m_userGateways m)))"

definition pc_inv :: "pc \<Rightarrow> bool" where
  "pc_inv p = (\<forall>g \<in> set (pc_gateways p). gw_options g = default_options)"

section \<open>Properties of the chaincode\<close>

lemma requireAdmin_admin:
  "attrs c ''ou'' = Some ''admin'' \<Longrightarrow> requireAdmin c = Inr ()"
  by (simp add: requireAdmin_def checkRole_def)



lemma jget_jset: "jget (jset d k v) k' = (if k' = k then Some v else jget d k')"
  by (induction d) (auto simp: jget_def)

lemma IssueDegree_world:
  "IssueDegree c l a = Inr (l', r) \<Longrightarrow>
     world l (a_degreeId a) = None \<and> world l' = (world l)(a_degreeId a \<mapsto> degree_object c a)"
  by (auto simp: IssueDegree_def DegreeExists_def Let_def split: sum.splits if_splits)

lemma RevokeDegree_world:
  "RevokeDegree c l k reason = Inr (l', r) \<Longrightarrow>
     \<exists>d. world l k = Some d \<and> jget d ''status'' \<noteq> Some (JStr ''REVOKED'') \<and>
         world l' = (world l)(k \<mapsto>
            jset (jset (jset (jset d ''status'' (JStr ''REVOKED'')) ''revocationReason'' (JStr reason))
                   ''revokedAt'' (JStr (txTimestamp c))) ''revokedBy'' (JStr (mspid c)))"
  by (auto simp: RevokeDegree_def Let_def split: sum.splits option.splits if_splits)

lemma UpdateTranscript_world:
  "UpdateTranscript parse gpaOK c l s = Inr (l', r) \<Longrightarrow>
     \<exists>h. world l' = (world l)(''transcript-'' @ s \<mapsto> public_metadata c s h)"
  by (auto simp: UpdateTranscript_def Let_def split: sum.splits option.splits if_splits)

lemma GrantAccess_world:
  "GrantAccess c l s m = Inr (l', r) \<Longrightarrow>
     \<exists>g. world l' = (world l)(''grant-'' @ s @ ''-'' @ m \<mapsto> g) \<and>
         jget g ''docType'' = Some (JStr ''access-grant'') \<and> jget g ''status'' = None"
  by (auto simp: GrantAccess_def Let_def jget_def split: sum.splits option.splits if_splits)

lemma public_metadata_props:
  "jget (public_metadata c s h) ''docType'' = Some (JStr ''transcript-metadata'')"
  "jget (public_metadata c s h) ''status'' = None"
  by (simp_all add: public_metadata_def jget_def)

lemma degree_object_props:
  "jget (degree_object c a) ''docType'' = Some (JStr ''degree'')"
  "jget (degree_object c a) ''status'' = Some (JStr ''ACTIVE'')"
  by (simp_all add: degree_object_def jget_def)

lemma revoked_object_props:
  "jget (revoked_object c d reason) ''status'' = Some (JStr ''REVOKED'')"
  "jget (revoked_object c d reason) ''docType'' = jget d ''docType''"
  by (simp_all add: revoked_object_def jget_jset)

lemma invoke_cases:
  assumes "invoke parse gpaOK c l t = Inr (l', r)"
  shows "world l' k = world l k
       \<or> (\<exists>a. t = TxIssueDegree a \<and> a_degreeId a = k \<and> world l k = None
              \<and> world l' k = Some (degree_object c a))
       \<or> (\<exists>reason d. t = TxRevokeDegree k reason \<and> world l k = Some d
              \<and> jget d ''status'' \<noteq> Some (JStr ''REVOKED'')
              \<and> world l' k = Some (revoked_object c d reason))
       \<or> (\<exists>d'. world l' k = Some d' \<and> \<not> is_degree d' \<and> jget d' ''status'' = None)"
proof (cases t)
  case (TxIssueDegree a)
  with assms IssueDegree_world [of c l a l' r] show ?thesis by auto
next
  case (TxRevokeDegree k' reason)
  with assms RevokeDegree_world [of c l k' reason l' r] show ?thesis
    by (auto simp: revoked_object_def)
next
  case (TxUpdateTranscript s)
  with assms UpdateTranscript_world [of parse gpaOK c l s l' r] show ?thesis
    by (auto simp: is_degree_def public_metadata_props)
next
  case (TxGrantAccess s m)
  with assms GrantAccess_world [of c l s m l' r] show ?thesis
    by (auto simp: is_degree_def)
qed

text \<open>
  On every ledger that successful transactions lead to, a record whose
  \<^verbatim>\<open>docType\<close> is "degree" has the status ACTIVE or REVOKED.
\<close>

lemma reachable_status_ok:
  "reachable parse gpaOK l \<Longrightarrow> world l k = Some d \<Longrightarrow> status_ok d"
proof (induction arbitrary: k d rule: reachable.induct)
  case reachable_empty
  then show ?case by (simp add: empty_ledger_def)
next
  case (reachable_invoke l c t l' r)
  note IH = reachable_invoke.IH and w = \<open>world l' k = Some d\<close>
  from invoke_cases [OF reachable_invoke.hyps(2), of k]
  consider "world l' k = world l k"
    | a where "world l' k = Some (degree_object c a)"
    | reason d0 where "world l' k = Some (revoked_object c d0 reason)"
    | d' where "world l' k = Some d'" "\<not> is_degree d'"
    by blast
  then show ?case
  proof cases
    case 1
    with w have "world l k = Some d" by simp
    then show ?thesis by (rule IH)
  next
    case 2
    with w have "d = degree_object c a" by simp
    then show ?thesis by (simp add: status_ok_def degree_object_props)
  next
    case 3
    with w have "d = revoked_object c d0 reason" by simp
    then show ?thesis by (simp add: status_ok_def revoked_object_props)
  next
    case 4
    with w have "\<not> is_degree d" by simp
    then show ?thesis by (simp add: status_ok_def)
  qed
qed

section \<open>Properties of the transcript service\<close>

















lemma UpdateTranscript_success:
  assumes "UpdateTranscript parse gpaOK c l s = Inr (l', r)"
  shows "\<exists>tb gpa transcript personalInfo.
           transient c ''transcript'' = Some tb \<and> transient c ''gpa'' = Some gpa
         \<and> parse tb = Inr transcript
         \<and> l' = l\<lparr>collection := (collection l)(s \<mapsto>
                      stringify (JObj (transcript_data c s transcript gpa personalInfo))),
                   world := (world l)(''transcript-'' @ s \<mapsto>
                      public_metadata c s
                        (sha256 (stringify (JObj (transcript_data c s transcript gpa personalInfo)))))\<rparr>
         \<and> r = stringify (JObj (update_result s
                   (sha256 (stringify (JObj (transcript_data c s transcript gpa personalInfo))))))"
  using assms
  by (auto simp: UpdateTranscript_def Let_def split: sum.splits option.splits if_splits)

lemma public_metadata_hash:
  "jget (public_metadata c s h) ''transcriptHash'' = Some (JStr h)"
  by (simp add: public_metadata_def jget_def)

text \<open>
  C2, amended. The hash in the public metadata is the SHA-256 of the bytes that
  \<^verbatim>\<open>UpdateTranscript\<close> stores in the private collection: the
  \<^verbatim>\<open>JSON.stringify\<close> of the private record with the student id, the parsed
  transcript, the GPA, the personal information, the transaction time and the MSP id of
  the caller. An administrator whose transient map holds a transcript that parses, a
  GPA in range and personal information that parses (or none) gets that record stored;
  and whenever the transaction succeeds, the metadata under
  \<^verbatim>\<open>transcript-<studentId>\<close> and the returned payload carry the SHA-256 of
  the stored private bytes.
\<close>

theorem UpdateTranscript_stored_hash:
  "(attrs c ''ou'' = Some ''admin'' \<and> transient c ''transcript'' = Some tb
      \<and> transient c ''gpa'' = Some gpa \<and> parse tb = Inr transcript
      \<and> (case transient c ''personalInfo'' of None \<Rightarrow> Inr (JObj []) | Some b \<Rightarrow> parse b)
            = Inr personalInfo
      \<and> gpaOK gpa
    \<longrightarrow> (\<exists>l'. UpdateTranscript parse gpaOK c l s =
               Inr (l', stringify (JObj (update_result s
                      (sha256 (stringify (JObj (transcript_data c s transcript gpa personalInfo)))))))
            \<and> collection l' s =
                 Some (stringify (JObj (transcript_data c s transcript gpa personalInfo)))))
   \<and> (\<forall>l' r. UpdateTranscript parse gpaOK c l s = Inr (l', r)
        \<longrightarrow> (\<exists>buf. collection l' s = Some buf
                \<and> stored_hash l' s = Some (JStr (sha256 buf))
                \<and> world l' (''transcript-'' @ s) = Some (public_metadata c s (sha256 buf))
                \<and> r = stringify (JObj (update_result s (sha256 buf)))))"
proof (intro conjI allI impI)
  assume "attrs c ''ou'' = Some ''admin'' \<and> transient c ''transcript'' = Some tb
      \<and> transient c ''gpa'' = Some gpa \<and> parse tb = Inr transcript
      \<and> (case transient c ''personalInfo'' of None \<Rightarrow> Inr (JObj []) | Some b \<Rightarrow> parse b)
            = Inr personalInfo
      \<and> gpaOK gpa"
  then show "\<exists>l'. UpdateTranscript parse gpaOK c l s =
               Inr (l', stringify (JObj (update_result s
                      (sha256 (stringify (JObj (transcript_data c s transcript gpa personalInfo)))))))
            \<and> collection l' s =
                 Some (stringify (JObj (transcript_data c s transcript gpa personalInfo)))"
    by (simp add: UpdateTranscript_def requireAdmin_admin Let_def)
next
  fix l' r
  assume "UpdateTranscript parse gpaOK c l s = Inr (l', r)"
  from UpdateTranscript_success [OF this]
  show "\<exists>buf. collection l' s = Some buf
                \<and> stored_hash l' s = Some (JStr (sha256 buf))
                \<and> world l' (''transcript-'' @ s) = Some (public_metadata c s (sha256 buf))
                \<and> r = stringify (JObj (update_result s (sha256 buf)))"
    by (auto simp: stored_hash_def public_metadata_hash)
qed

theorem UpdateTranscript_stored_hash_witness:
  "attrs (update_ctx ''2025-01-01T00:00:00.000Z'') ''ou'' = Some ''admin''
   \<and> gpaOK_demo ''3.6''
   \<and> (\<exists>l' r buf.
         UpdateTranscript parse_demo gpaOK_demo (update_ctx ''2025-01-01T00:00:00.000Z'')
           empty_ledger ''S1'' = Inr (l', r)
       \<and> collection l' ''S1'' = Some buf
       \<and> stored_hash l' ''S1'' = Some (JStr (sha256 buf)))"
proof -
  let ?c = "update_ctx ''2025-01-01T00:00:00.000Z''"
  have a: "attrs ?c ''ou'' = Some ''admin''"
    by (simp add: update_ctx_def)
  have t: "transient ?c ''transcript'' = Some (stringify grades_demo)"
    by (simp add: update_ctx_def transientData_def)
  have g: "transient ?c ''gpa'' = Some ''3.6''"
    by (simp add: update_ctx_def transientData_def)
  have p: "parse_demo (stringify grades_demo) = Inr grades_demo"
    by code_simp
  have i: "(case transient ?c ''personalInfo'' of None \<Rightarrow> Inr (JObj []) | Some b \<Rightarrow> parse_demo b)
             = Inr info_demo"
    by code_simp
  have k: "gpaOK_demo ''3.6''"
    by (simp add: gpaOK_demo_def)
  from UpdateTranscript_stored_hash
         [of ?c "stringify grades_demo" "''3.6''" parse_demo grades_demo info_demo gpaOK_demo
             empty_ledger "''S1''"] a t g p i k
  obtain l' where l': "UpdateTranscript parse_demo gpaOK_demo ?c empty_ledger ''S1'' =
      Inr (l', stringify (JObj (update_result ''S1''
             (sha256 (stringify (JObj (transcript_data ?c ''S1'' grades_demo ''3.6'' info_demo)))))))"
    by blast
  with UpdateTranscript_stored_hash
         [of ?c "stringify grades_demo" "''3.6''" parse_demo grades_demo info_demo gpaOK_demo
             empty_ledger "''S1''"]
  obtain buf where "collection l' ''S1'' = Some buf" "stored_hash l' ''S1'' = Some (JStr (sha256 buf))"
    by blast
  with l' a k show ?thesis by blast
qed

lemma stored_hash_run_A:
  "stored_hash_of (UpdateTranscript parse_demo gpaOK_demo (update_ctx ''2025-01-01T00:00:00.000Z'')
      empty_ledger ''S1'') ''S1''
   = Some (JStr ''b5f0f3a35440c76a83dbd04a73e41ba00850d46ab90f7a1de931101ec1b791a7'')"
  by code_simp

lemma stored_hash_run_B:
  "stored_hash_of (UpdateTranscript parse_demo gpaOK_demo (update_ctx ''2025-01-01T00:00:01.000Z'')
      empty_ledger ''S1'') ''S1''
   = Some (JStr ''9a288604e5d8e50d33cd58b217b953d70342cc62547f71ad3f05f624ae96c43a'')"
  by code_simp

lemma local_hash_demo:
  "spec_local_hash grades_demo ''3.6'' info_demo =
     ''6ceec541973d3e580051ef2852495b7111aca1789bc1a1eb44443eb8db69b359''"
  by code_simp

text \<open>
  C2 as stated does not hold. The same private fields, serialized by the client into
  the transient map, are submitted at two transaction times one second apart: the two
  hashes stored in the public metadata differ from each other, so no hash computed from
  the private fields alone equals both; and neither is the SHA-256 of the serialized
  private fields. The three digests are those that any SHA-256 tool prints for the
  three byte strings.
\<close>

theorem transcript_hash_roundtrip_counterexample:
  "stored_hash_of (UpdateTranscript parse_demo gpaOK_demo (update_ctx ''2025-01-01T00:00:00.000Z'')
      empty_ledger ''S1'') ''S1''
     = Some (JStr ''b5f0f3a35440c76a83dbd04a73e41ba00850d46ab90f7a1de931101ec1b791a7'')
   \<and> stored_hash_of (UpdateTranscript parse_demo gpaOK_demo (update_ctx ''2025-01-01T00:00:01.000Z'')
      empty_ledger ''S1'') ''S1''
     = Some (JStr ''9a288604e5d8e50d33cd58b217b953d70342cc62547f71ad3f05f624ae96c43a'')
   \<and> spec_local_hash grades_demo ''3.6'' info_demo
     = ''6ceec541973d3e580051ef2852495b7111aca1789bc1a1eb44443eb8db69b359''
   \<and> stored_hash_of (UpdateTranscript parse_demo gpaOK_demo (update_ctx ''2025-01-01T00:00:00.000Z'')
      empty_ledger ''S1'') ''S1''
     \<noteq> Some (JStr (spec_local_hash grades_demo ''3.6'' info_demo))
   \<and> stored_hash_of (UpdateTranscript parse_demo gpaOK_demo (update_ctx ''2025-01-01T00:00:00.000Z'')
      empty_ledger ''S1'') ''S1''
     \<noteq> stored_hash_of (UpdateTranscript parse_demo gpaOK_demo (update_ctx ''2025-01-01T00:00:01.000Z'')
      empty_ledger ''S1'') ''S1''"
  by (simp add: stored_hash_run_A stored_hash_run_B local_hash_demo)

section \<open>Properties of the degree service\<close>

lemma jset_absent: "jget d k = None \<Longrightarrow> jset d k v = d @ [(k, v)]"
  by (induction d) (auto simp: jget_def split: if_splits)

lemma jset_present: "jget d k = Some v \<Longrightarrow> jset d k v = d"
  by (induction d) (auto simp: jget_def split: if_splits)

lemma parse_recover_ok: "parse s = Inr v \<Longrightarrow> parse_recover parse s = Inr v"
  by (simp add: parse_recover_def)

lemma verifyDegree_try_Inr:
  assumes "verifyDegree_try parse net degreeId username = Inr res"
  shows "\<exists>payload degreeData st.
            n_evaluate net ''QueryDegree'' [degreeId] = Inr payload
          \<and> parse_recover parse payload = Inr degreeData
          \<and> read_prop degreeData ''status'' = Inr st
          \<and> res = \<lparr>v_success = True, v_verified = (status_or_active st = JStr ''ACTIVE''),
                    v_degree = jset (spread degreeData) ''status'' (status_or_active st)\<rparr>"
  using assms
  by (auto simp: verifyDegree_try_def Let_def split: if_splits sum.splits)

text \<open>
  C10. Whenever \<^verbatim>\<open>verifyDegree\<close> succeeds, the query has returned a payload
  that parses, the status of the returned degree is the \<^verbatim>\<open>status\<close> of the
  parsed record when that is truthy and \<^verbatim>\<open>'ACTIVE'\<close> otherwise, and the
  \<^verbatim>\<open>verified\<close> flag says whether the status of the returned degree is
  \<^verbatim>\<open>'ACTIVE'\<close>. When the degree id is not blank, the contract is obtained and
  the query returns a payload that is not blank and parses to an object, the call does
  not fail. If the object has no \<^verbatim>\<open>status\<close>, the call returns it with the
  status \<^verbatim>\<open>'ACTIVE'\<close> added and \<^verbatim>\<open>verified\<close> true. If it has a truthy
  status, the call returns the object as it is, and \<^verbatim>\<open>verified\<close> is true exactly
  when that status is \<^verbatim>\<open>'ACTIVE'\<close> (so it is false for a revoked degree). If its
  status is there but falsy (the empty string, \<^verbatim>\<open>null\<close>, \<^verbatim>\<open>false\<close>, 0),
  the status is replaced by \<^verbatim>\<open>'ACTIVE'\<close> and \<^verbatim>\<open>verified\<close> is true.
\<close>

theorem verifyDegree_verified:
  "(\<forall>res. verifyDegree parse net degreeId username = Inr res
       \<longrightarrow> v_success res
           \<and> v_verified res = (jget (v_degree res) ''status'' = Some (JStr ''ACTIVE''))
           \<and> (\<exists>payload degreeData st.
                  n_evaluate net ''QueryDegree'' [degreeId] = Inr payload
                \<and> parse_recover parse payload = Inr degreeData
                \<and> read_prop degreeData ''status'' = Inr st
                \<and> jget (v_degree res) ''status'' = Some (status_or_active st)))
   \<and> (degreeId \<noteq> [] \<and> \<not> blank degreeId \<and> n_contract net username = Inr ()
        \<and> n_evaluate net ''QueryDegree'' [degreeId] = Inr payload
        \<and> payload \<noteq> [] \<and> \<not> blank payload
        \<and> parse payload = Inr (JObj record)
       \<longrightarrow> (jget record ''status'' = None
               \<longrightarrow> verifyDegree parse net degreeId username =
                     Inr \<lparr>v_success = True, v_verified = True,
                          v_degree = record @ [(''status'', JStr ''ACTIVE'')]\<rparr>)
           \<and> (\<forall>v. jget record ''status'' = Some v \<and> truthy (Some v)
               \<longrightarrow> verifyDegree parse net degreeId username =
                     Inr \<lparr>v_success = True, v_verified = (v = JStr ''ACTIVE''),
                          v_degree = record\<rparr>)
           \<and> (\<forall>v. jget record ''status'' = Some v \<and> \<not> truthy (Some v)
               \<longrightarrow> verifyDegree parse net degreeId username =
                     Inr \<lparr>v_success = True, v_verified = True,
                          v_degree = jset record ''status'' (JStr ''ACTIVE'')\<rparr>))"
proof (intro conjI allI impI)
  fix res
  assume "verifyDegree parse net degreeId username = Inr res"
  then have r: "verifyDegree_try parse net degreeId username = Inr res"
    by (simp add: verifyDegree_def split: sum.splits)
  from verifyDegree_try_Inr [OF r] obtain payload degreeData st where
    e: "n_evaluate net ''QueryDegree'' [degreeId] = Inr payload"
       "parse_recover parse payload = Inr degreeData"
       "read_prop degreeData ''status'' = Inr st"
    and res: "res = \<lparr>v_success = True, v_verified = (status_or_active st = JStr ''ACTIVE''),
                    v_degree = jset (spread degreeData) ''status'' (status_or_active st)\<rparr>"
    by blast
  from res show "v_success res" by simp
  from res show "v_verified res = (jget (v_degree res) ''status'' = Some (JStr ''ACTIVE''))"
    by (simp add: jget_jset)
  from res have "jget (v_degree res) ''status'' = Some (status_or_active st)"
    by (simp add: jget_jset)
  with e show "\<exists>payload degreeData st.
                  n_evaluate net ''QueryDegree'' [degreeId] = Inr payload
                \<and> parse_recover parse payload = Inr degreeData
                \<and> read_prop degreeData ''status'' = Inr st
                \<and> jget (v_degree res) ''status'' = Some (status_or_active st)"
    by blast
next
  assume a: "degreeId \<noteq> [] \<and> \<not> blank degreeId \<and> n_contract net username = Inr ()
        \<and> n_evaluate net ''QueryDegree'' [degreeId] = Inr payload
        \<and> payload \<noteq> [] \<and> \<not> blank payload
        \<and> parse payload = Inr (JObj record)"
  and "jget record ''status'' = None"
  then show "verifyDegree parse net degreeId username =
             Inr \<lparr>v_success = True, v_verified = True,
                  v_degree = record @ [(''status'', JStr ''ACTIVE'')]\<rparr>"
    by (simp add: verifyDegree_def verifyDegree_try_def parse_recover_ok jset_absent
                  status_or_active_def)
next
  fix v
  assume a: "degreeId \<noteq> [] \<and> \<not> blank degreeId \<and> n_contract net username = Inr ()
        \<and> n_evaluate net ''QueryDegree'' [degreeId] = Inr payload
        \<and> payload \<noteq> [] \<and> \<not> blank payload
        \<and> parse payload = Inr (JObj record)"
  and "jget record ''status'' = Some v \<and> truthy (Some v)"
  then show "verifyDegree parse net degreeId username =
             Inr \<lparr>v_success = True, v_verified = (v = JStr ''ACTIVE''), v_degree = record\<rparr>"
    by (simp add: verifyDegree_def verifyDegree_try_def parse_recover_ok jset_present
                  status_or_active_def)
next
  fix v
  assume a: "degreeId \<noteq> [] \<and> \<not> blank degreeId \<and> n_contract net username = Inr ()
        \<and> n_evaluate net ''QueryDegree'' [degreeId] = Inr payload
        \<and> payload \<noteq> [] \<and> \<not> blank payload
        \<and> parse payload = Inr (JObj record)"
  and "jget record ''status'' = Some v \<and> \<not> truthy (Some v)"
  then show "verifyDegree parse net degreeId username =
             Inr \<lparr>v_success = True, v_verified = True,
                  v_degree = jset record ''status'' (JStr ''ACTIVE'')\<rparr>"
    by (simp add: verifyDegree_def verifyDegree_try_def parse_recover_ok
                  status_or_active_def)
qed

theorem verifyDegree_verified_witness:
  "''D1'' \<noteq> [] \<and> \<not> blank ''D1''
   \<and> n_contract (net_query ''{\"degreeId\":\"D1\"}'') None = Inr ()
   \<and> n_evaluate (net_query ''{\"degreeId\":\"D1\"}'') ''QueryDegree'' [''D1''] =
        Inr ''{\"degreeId\":\"D1\"}''
   \<and> \<not> blank ''{\"degreeId\":\"D1\"}''
   \<and> parse_demo ''{\"degreeId\":\"D1\"}'' = Inr (JObj [(''degreeId'', JStr ''D1'')])
   \<and> jget [(''degreeId'', JStr ''D1'')] ''status'' = None
   \<and> verifyDegree parse_demo (net_query ''{\"degreeId\":\"D1\"}'') ''D1'' None =
       Inr \<lparr>v_success = True, v_verified = True,
            v_degree = [(''degreeId'', JStr ''D1''), (''status'', JStr ''ACTIVE'')]\<rparr>
   \<and> parse_of [JObj [(''degreeId'', JStr ''D1''), (''status'', JStr ''REVOKED'')]]
        ''{\"degreeId\":\"D1\",\"status\":\"REVOKED\"}'' =
        Inr (JObj [(''degreeId'', JStr ''D1''), (''status'', JStr ''REVOKED'')])
   \<and> jget [(''degreeId'', JStr ''D1''), (''status'', JStr ''REVOKED'')] ''status'' =
        Some (JStr ''REVOKED'')
   \<and> truthy (Some (JStr ''REVOKED''))
   \<and> verifyDegree (parse_of [JObj [(''degreeId'', JStr ''D1''), (''status'', JStr ''REVOKED'')]])
        (net_query ''{\"degreeId\":\"D1\",\"status\":\"REVOKED\"}'') ''D1'' None =
       Inr \<lparr>v_success = True, v_verified = False,
            v_degree = [(''degreeId'', JStr ''D1''), (''status'', JStr ''REVOKED'')]\<rparr>"
proof -
  let ?payload = "''{\"degreeId\":\"D1\"}''"
  let ?revoked = "''{\"degreeId\":\"D1\",\"status\":\"REVOKED\"}''"
  let ?rec = "[(''degreeId'', JStr ''D1''), (''status'', JStr ''REVOKED'')]"
  have b: "\<not> blank ''D1''" by code_simp
  have c: "n_contract (net_query ?payload) None = Inr ()" by (simp add: net_query_def)
  have e: "n_evaluate (net_query ?payload) ''QueryDegree'' [''D1''] = Inr ?payload"
    by (simp add: net_query_def)
  have nb: "\<not> blank ?payload" by code_simp
  have p: "parse_demo ?payload = Inr (JObj [(''degreeId'', JStr ''D1'')])" by code_simp
  have g: "jget [(''degreeId'', JStr ''D1'')] ''status'' = None" by (simp add: jget_def)
  from verifyDegree_verified [of parse_demo "net_query ?payload" "''D1''" None ?payload
         "[(''degreeId'', JStr ''D1'')]"] b c e nb p g
  have r1: "verifyDegree parse_demo (net_query ?payload) ''D1'' None =
       Inr \<lparr>v_success = True, v_verified = True,
            v_degree = [(''degreeId'', JStr ''D1'')] @ [(''status'', JStr ''ACTIVE'')]\<rparr>"
    by simp
  have c2: "n_contract (net_query ?revoked) None = Inr ()" by (simp add: net_query_def)
  have e2: "n_evaluate (net_query ?revoked) ''QueryDegree'' [''D1''] = Inr ?revoked"
    by (simp add: net_query_def)
  have nb2: "\<not> blank ?revoked" by code_simp
  have p2: "parse_of [JObj ?rec] ?revoked = Inr (JObj ?rec)" by code_simp
  have g2: "jget ?rec ''status'' = Some (JStr ''REVOKED'')" by (simp add: jget_def)
  have t2: "truthy (Some (JStr ''REVOKED''))" by simp
  from verifyDegree_verified [of "parse_of [JObj ?rec]" "net_query ?revoked" "''D1''" None
         ?revoked ?rec] b c2 e2 nb2 p2 g2 t2
  have r2: "verifyDegree (parse_of [JObj ?rec]) (net_query ?revoked) ''D1'' None =
       Inr \<lparr>v_success = True, v_verified = False, v_degree = ?rec\<rparr>"
    by simp
  from b c e nb p g r1 p2 g2 t2 r2 show ?thesis by simp
qed

section \<open>Properties of the catch blocks of the services\<close>

text \<open>
  C8 as stated does not hold. The endorsement of the transcript proposal fails with
  the error that the chaincode throws for missing transient data. Its message contains
  "transient", so \<^verbatim>\<open>addPrivateTranscript\<close> throws a plain \<^verbatim>\<open>Error\<close>,
  which is none of the six kinds, and the fixed message of that error does not carry
  the original one.
\<close>

theorem error_classification_counterexample:
  "addPrivateTranscript parse_demo gpaOK_demo (net_failing e_transient) td_demo None =
     Inl (Error ''Required transient data is missing. Internal server error.'')
   \<and> err_message e_transient = ''Missing required transient data: transcript and gpa''
   \<and> \<not> str_includes ''Required transient data is missing. Internal server error.''
         ''Missing required transient data: transcript and gpa''"
  by code_simp

lemma issueDegree_catch_other:
  "not_validation e \<Longrightarrow>
   issueDegree_catch e =
          (if str_includes (err_message e) ''UNAVAILABLE'' \<or>
              str_includes (err_message e) ''connect ECONNREFUSED'' \<or>
              str_includes (err_message e) ''Failed to connect''
           then ConnectionError ''Failed to connect to Fabric network. Service unavailable.''
           else if str_includes (err_message e) ''endorsement policy'' \<or>
                   str_includes (err_message e) ''failed to collect enough endorsements''
           then EndorsementError ''Transaction endorsement failed. Endorsement policy not satisfied.''
           else if str_includes (err_message e) ''MVCC_READ_CONFLICT'' \<or>
                   str_includes (err_message e) ''mvcc read conflict''
           then ConflictError ''Transaction conflict detected. Please retry the operation.''
           else Error (''Failed to issue degree: '' @ err_message e))"
  by (cases e) (simp_all add: issueDegree_catch_def not_validation_def Let_def)

lemma addPrivateTranscript_catch_other:
  "not_validation e \<Longrightarrow>
   addPrivateTranscript_catch e =
          (if str_includes (err_message e) ''UNAVAILABLE'' \<or>
              str_includes (err_message e) ''connect ECONNREFUSED'' \<or>
              str_includes (err_message e) ''Failed to connect''
           then ConnectionError ''Failed to connect to Fabric network. Service unavailable.''
           else if str_includes (err_message e) ''endorsement policy'' \<or>
                   str_includes (err_message e) ''failed to collect enough endorsements''
           then EndorsementError ''Transaction endorsement failed. Endorsement policy not satisfied.''
           else if str_includes (err_message e) ''MVCC_READ_CONFLICT'' \<or>
                   str_includes (err_message e) ''mvcc read conflict''
           then ConflictError ''Transaction conflict detected. Please retry the operation.''
           else if str_includes (err_message e) ''transient'' \<or>
                   str_includes (err_message e) ''expected transient data''
           then Error ''Required transient data is missing. Internal server error.''
           else Error (''Failed to update transcript: '' @ err_message e))"
  by (cases e) (simp_all add: addPrivateTranscript_catch_def not_validation_def Let_def)

lemma revokeDegree_catch_other:
  "not_validation e \<Longrightarrow>
   revokeDegree_catch e =
          (if str_includes (err_message e) ''UNAVAILABLE''
           then ConnectionError ''Service unavailable.''
           else if str_includes (err_message e) ''endorsement policy''
           then EndorsementError ''Endorsement failed.''
           else if str_includes (err_message e) ''MVCC_READ_CONFLICT''
           then ConflictError ''Conflict detected.''
           else Error (''Failed to revoke degree: '' @ err_message e))"
  by (cases e) (simp_all add: revokeDegree_catch_def not_validation_def Let_def)

lemma verifyDegree_catch_other:
  "not_validation e \<Longrightarrow> not_notfound e \<Longrightarrow>
   verifyDegree_catch degreeId e =
          (if str_includes (err_message e) ''UNAVAILABLE'' \<or>
              str_includes (err_message e) ''connect ECONNREFUSED'' \<or>
              str_includes (err_message e) ''Failed to connect''
           then ConnectionError ''Failed to connect to Fabric network. Service unavailable.''
           else if str_includes (err_message e) ''does not exist''
           then NotFoundError (''Degree with ID '' @ degreeId @ '' not found'')
           else Error (''Failed to verify degree: '' @ err_message e))"
  by (cases e) (simp_all add: verifyDegree_catch_def not_validation_def not_notfound_def Let_def)

lemma plain_catch_other:
  "not_validation e \<Longrightarrow>
     getDegreesByStudent_catch e = Error (''Failed to get degrees: '' @ err_message e)
   \<and> getTranscript_catch e = Error (''Failed to get transcript: '' @ err_message e)
   \<and> grantAccess_catch e = Error (''Failed to grant access: '' @ err_message e)"
  by (cases e)
     (simp_all add: getDegreesByStudent_catch_def getTranscript_catch_def grantAccess_catch_def
                    not_validation_def)

lemma catch_validation:
  "issueDegree_catch (ValidationError m) = ValidationError m
   \<and> verifyDegree_catch degreeId (ValidationError m) = ValidationError m
   \<and> verifyDegree_catch degreeId (NotFoundError m) = NotFoundError m
   \<and> revokeDegree_catch (ValidationError m) = ValidationError m
   \<and> getDegreesByStudent_catch (ValidationError m) = ValidationError m
   \<and> addPrivateTranscript_catch (ValidationError m) = ValidationError m
   \<and> getTranscript_catch (ValidationError m) = ValidationError m
   \<and> grantAccess_catch (ValidationError m) = ValidationError m"
  by (simp add: issueDegree_catch_def verifyDegree_catch_def revokeDegree_catch_def
                getDegreesByStudent_catch_def addPrivateTranscript_catch_def
                getTranscript_catch_def grantAccess_catch_def)

text \<open>
  C8, amended. A failure leaves a service through the \<^verbatim>\<open>catch\<close> block of the
  operation, which throws exactly one error, chosen from the class of the failure and
  from the texts that its message contains. A \<^verbatim>\<open>ValidationError\<close> passes
  unchanged in every operation, and so does a \<^verbatim>\<open>NotFoundError\<close> in
  \<^verbatim>\<open>verifyDegree\<close>. For any other failure, with the tests made in this order:

  \<^item> \<^verbatim>\<open>issueDegree\<close>, \<^verbatim>\<open>verifyDegree\<close> and
    \<^verbatim>\<open>addPrivateTranscript\<close> throw a \<^verbatim>\<open>ConnectionError\<close> when the message
    contains "UNAVAILABLE", "connect ECONNREFUSED" or "Failed to connect";
  \<^item> \<^verbatim>\<open>issueDegree\<close> and \<^verbatim>\<open>addPrivateTranscript\<close> then throw an
    \<^verbatim>\<open>EndorsementError\<close> for "endorsement policy" or "failed to collect enough
    endorsements", and a \<^verbatim>\<open>ConflictError\<close> for "MVCC_READ_CONFLICT" or "mvcc read
    conflict";
  \<^item> \<^verbatim>\<open>addPrivateTranscript\<close> then throws, for "transient", a plain
    \<^verbatim>\<open>Error\<close> with a fixed message;
  \<^item> \<^verbatim>\<open>verifyDegree\<close> throws, after the test for a connection failure, a
    \<^verbatim>\<open>NotFoundError\<close> that names the degree id for "does not exist";
  \<^item> \<^verbatim>\<open>revokeDegree\<close> throws a \<^verbatim>\<open>ConnectionError\<close> for "UNAVAILABLE", an
    \<^verbatim>\<open>EndorsementError\<close> for "endorsement policy" and a \<^verbatim>\<open>ConflictError\<close>
    for "MVCC_READ_CONFLICT", and looks for no other text;
  \<^item> \<^verbatim>\<open>getDegreesByStudent\<close>, \<^verbatim>\<open>getTranscript\<close> and
    \<^verbatim>\<open>grantAccess\<close> look for no text at all;
  \<^item> a failure that matches none of the texts of its operation leaves it as a plain
    \<^verbatim>\<open>Error\<close> whose message is "Failed to ...: " followed by the original
    message.

  A failure inside the \<^verbatim>\<open>try\<close> block of \<^verbatim>\<open>addPrivateTranscript\<close> or of
  \<^verbatim>\<open>verifyDegree\<close> makes the operation throw what its \<^verbatim>\<open>catch\<close> block
  gives for it.
\<close>

theorem error_classification:
  "issueDegree_catch (ValidationError m) = ValidationError m
   \<and> verifyDegree_catch degreeId (ValidationError m) = ValidationError m
   \<and> verifyDegree_catch degreeId (NotFoundError m) = NotFoundError m
   \<and> revokeDegree_catch (ValidationError m) = ValidationError m
   \<and> getDegreesByStudent_catch (ValidationError m) = ValidationError m
   \<and> addPrivateTranscript_catch (ValidationError m) = ValidationError m
   \<and> getTranscript_catch (ValidationError m) = ValidationError m
   \<and> grantAccess_catch (ValidationError m) = ValidationError m
   \<and> (not_validation e \<longrightarrow>
        issueDegree_catch e =
          (if str_includes (err_message e) ''UNAVAILABLE'' \<or>
              str_includes (err_message e) ''connect ECONNREFUSED'' \<or>
              str_includes (err_message e) ''Failed to connect''
           then ConnectionError ''Failed to connect to Fabric network. Service unavailable.''
           else if str_includes (err_message e) ''endorsement policy'' \<or>
                   str_includes (err_message e) ''failed to collect enough endorsements''
           then EndorsementError ''Transaction endorsement failed. Endorsement policy not satisfied.''
           else if str_includes (err_message e) ''MVCC_READ_CONFLICT'' \<or>
                   str_includes (err_message e) ''mvcc read conflict''
           then ConflictError ''Transaction conflict detected. Please retry the operation.''
           else Error (''Failed to issue degree: '' @ err_message e))
      \<and> addPrivateTranscript_catch e =
          (if str_includes (err_message e) ''UNAVAILABLE'' \<or>
              str_includes (err_message e) ''connect ECONNREFUSED'' \<or>
              str_includes (err_message e) ''Failed to connect''
           then ConnectionError ''Failed to connect to Fabric network. Service unavailable.''
           else if str_includes (err_message e) ''endorsement policy'' \<or>
                   str_includes (err_message e) ''failed to collect enough endorsements''
           then EndorsementError ''Transaction endorsement failed. Endorsement policy not satisfied.''
           else if str_includes (err_message e) ''MVCC_READ_CONFLICT'' \<or>
                   str_includes (err_message e) ''mvcc read conflict''
           then ConflictError ''Transaction conflict detected. Please retry the operation.''
           else if str_includes (err_message e) ''transient'' \<or>
                   str_includes (err_message e) ''expected transient data''
           then Error ''Required transient data is missing. Internal server error.''
           else Error (''Failed to update transcript: '' @ err_message e))
      \<and> revokeDegree_catch e =
          (if str_includes (err_message e) ''UNAVAILABLE''
           then ConnectionError ''Service unavailable.''
           else if str_includes (err_message e) ''endorsement policy''
           then EndorsementError ''Endorsement failed.''
           else if str_includes (err_message e) ''MVCC_READ_CONFLICT''
           then ConflictError ''Conflict detected.''
           else Error (''Failed to revoke degree: '' @ err_message e))
      \<and> getDegreesByStudent_catch e = Error (''Failed to get degrees: '' @ err_message e)
      \<and> getTranscript_catch e = Error (''Failed to get transcript: '' @ err_message e)
      \<and> grantAccess_catch e = Error (''Failed to grant access: '' @ err_message e)
      \<and> (not_notfound e \<longrightarrow>
            verifyDegree_catch degreeId e =
          (if str_includes (err_message e) ''UNAVAILABLE'' \<or>
              str_includes (err_message e) ''connect ECONNREFUSED'' \<or>
              str_includes (err_message e) ''Failed to connect''
           then ConnectionError ''Failed to connect to Fabric network. Service unavailable.''
           else if str_includes (err_message e) ''does not exist''
           then NotFoundError (''Degree with ID '' @ degreeId @ '' not found'')
           else Error (''Failed to verify degree: '' @ err_message e))))
   \<and> (addPrivateTranscript_try parse gpaOK net td username = Inl e
        \<longrightarrow> addPrivateTranscript parse gpaOK net td username = Inl (addPrivateTranscript_catch e))
   \<and> (verifyDegree_try parse net degreeId username = Inl e
        \<longrightarrow> verifyDegree parse net degreeId username = Inl (verifyDegree_catch degreeId e))"
proof -
  have s1: "addPrivateTranscript_try parse gpaOK net td username = Inl e
        \<longrightarrow> addPrivateTranscript parse gpaOK net td username = Inl (addPrivateTranscript_catch e)"
    by (simp add: addPrivateTranscript_def)
  have s2: "verifyDegree_try parse net degreeId username = Inl e
        \<longrightarrow> verifyDegree parse net degreeId username = Inl (verifyDegree_catch degreeId e)"
    by (simp add: verifyDegree_def)
  from catch_validation [of m degreeId] s1 s2 show ?thesis
    using issueDegree_catch_other [of e] addPrivateTranscript_catch_other [of e]
          revokeDegree_catch_other [of e] plain_catch_other [of e]
          verifyDegree_catch_other [of e degreeId]
    by blast
qed

theorem error_classification_witness:
  "not_validation (Error ''connect ECONNREFUSED 127.0.0.1:7051'')
   \<and> not_notfound (Error ''connect ECONNREFUSED 127.0.0.1:7051'')
   \<and> issueDegree_catch (Error ''connect ECONNREFUSED 127.0.0.1:7051'') =
        ConnectionError ''Failed to connect to Fabric network. Service unavailable.''
   \<and> verifyDegree_catch ''D1'' (Error ''connect ECONNREFUSED 127.0.0.1:7051'') =
        ConnectionError ''Failed to connect to Fabric network. Service unavailable.''
   \<and> revokeDegree_catch (Error ''connect ECONNREFUSED 127.0.0.1:7051'') =
        Error ''Failed to revoke degree: connect ECONNREFUSED 127.0.0.1:7051''
   \<and> grantAccess_catch (Error ''connect ECONNREFUSED 127.0.0.1:7051'') =
        Error ''Failed to grant access: connect ECONNREFUSED 127.0.0.1:7051''
   \<and> verifyDegree_try parse_demo (net_failing (Error ''connect ECONNREFUSED 127.0.0.1:7051''))
        ''D1'' None = Inl (Error ''connect ECONNREFUSED 127.0.0.1:7051'')
   \<and> verifyDegree parse_demo (net_failing (Error ''connect ECONNREFUSED 127.0.0.1:7051''))
        ''D1'' None =
        Inl (ConnectionError ''Failed to connect to Fabric network. Service unavailable.'')
   \<and> addPrivateTranscript_try parse_demo gpaOK_demo
        (net_failing (Error ''connect ECONNREFUSED 127.0.0.1:7051'')) td_demo None =
        Inl (Error ''connect ECONNREFUSED 127.0.0.1:7051'')
   \<and> addPrivateTranscript parse_demo gpaOK_demo
        (net_failing (Error ''connect ECONNREFUSED 127.0.0.1:7051'')) td_demo None =
        Inl (ConnectionError ''Failed to connect to Fabric network. Service unavailable.'')"
proof -
  let ?e = "Error ''connect ECONNREFUSED 127.0.0.1:7051''"
  have n: "not_validation ?e" "not_notfound ?e"
    by (simp_all add: not_validation_def not_notfound_def)
  have m: "err_message ?e = ''connect ECONNREFUSED 127.0.0.1:7051''" by simp
  have i: "str_includes ''connect ECONNREFUSED 127.0.0.1:7051'' ''connect ECONNREFUSED''"
          "\<not> str_includes ''connect ECONNREFUSED 127.0.0.1:7051'' ''UNAVAILABLE''"
          "\<not> str_includes ''connect ECONNREFUSED 127.0.0.1:7051'' ''endorsement policy''"
          "\<not> str_includes ''connect ECONNREFUSED 127.0.0.1:7051'' ''MVCC_READ_CONFLICT''"
    by code_simp+
  have v: "verifyDegree_try parse_demo (net_failing ?e) ''D1'' None = Inl ?e"
    by code_simp
  have a: "addPrivateTranscript_try parse_demo gpaOK_demo (net_failing ?e) td_demo None = Inl ?e"
    by code_simp
  note t = error_classification
             [where e = ?e and degreeId = "''D1''" and parse = parse_demo and gpaOK = gpaOK_demo
                and net = "net_failing ?e" and td = td_demo and username = None]
  from t n have c: "issueDegree_catch ?e =
        ConnectionError ''Failed to connect to Fabric network. Service unavailable.''
     \<and> verifyDegree_catch ''D1'' ?e =
        ConnectionError ''Failed to connect to Fabric network. Service unavailable.''
     \<and> addPrivateTranscript_catch ?e =
        ConnectionError ''Failed to connect to Fabric network. Service unavailable.''
     \<and> revokeDegree_catch ?e = Error ''Failed to revoke degree: connect ECONNREFUSED 127.0.0.1:7051''
     \<and> grantAccess_catch ?e = Error ''Failed to grant access: connect ECONNREFUSED 127.0.0.1:7051''"
    by (simp only: m i simp_thms if_True if_False append.simps)
  from t v a have s: "verifyDegree parse_demo (net_failing ?e) ''D1'' None =
                        Inl (verifyDegree_catch ''D1'' ?e)
     \<and> addPrivateTranscript parse_demo gpaOK_demo (net_failing ?e) td_demo None =
                        Inl (addPrivateTranscript_catch ?e)"
    by blast
  from n c s v a show ?thesis by simp
qed

section \<open>Degree records and transcript records share their keys\<close>

text \<open>
  C4 does not hold on the code. \<^verbatim>\<open>IssueDegree\<close> stores a degree under its id as
  it is, and \<^verbatim>\<open>UpdateTranscript\<close> stores the public record of a transcript under
  "transcript-" followed by the student id, without looking at what the key holds. An
  administrator issues a degree with the id "transcript-S1" and revokes it: the record
  is a degree with status REVOKED, a second \<^verbatim>\<open>RevokeDegree\<close> throws "Degree
  transcript-S1 is already revoked", and \<^verbatim>\<open>verifyDegree\<close> reports it as not
  verified. Then the transcript of the student "S1" is updated. The record under
  "transcript-S1" is now the public record of the transcript: it is no degree and has
  no status, a further \<^verbatim>\<open>RevokeDegree\<close> on it succeeds instead of throwing
  "already revoked", and \<^verbatim>\<open>verifyDegree\<close> reports the revoked degree as
  verified, with status ACTIVE.
\<close>

theorem degree_status_key_collision:
  "(case run_txs parse_demo gpaOK_demo empty_ledger (take 2 collision_txs) of
      Inl e \<Rightarrow> False
    | Inr l \<Rightarrow>
        degree_at l ''transcript-S1''
      \<and> status_at l ''transcript-S1'' = Some (JStr ''REVOKED'')
      \<and> (case RevokeDegree admin_ctx l ''transcript-S1'' ''again'' of
            Inl e \<Rightarrow> e = Error ''Degree transcript-S1 is already revoked''
          | Inr x \<Rightarrow> False)
      \<and> (case verifyDegree (parse_ledger l ''transcript-S1'') (net_ledger l) ''transcript-S1'' None of
            Inl e \<Rightarrow> False
          | Inr r \<Rightarrow> \<not> v_verified r \<and> jget (v_degree r) ''status'' = Some (JStr ''REVOKED'')))
   \<and> (case run_txs parse_demo gpaOK_demo empty_ledger collision_txs of
      Inl e \<Rightarrow> False
    | Inr l \<Rightarrow>
        \<not> degree_at l ''transcript-S1''
      \<and> status_at l ''transcript-S1'' = None
      \<and> (case RevokeDegree admin_ctx l ''transcript-S1'' ''again'' of
            Inl e \<Rightarrow> False
          | Inr (l', r) \<Rightarrow> status_at l' ''transcript-S1'' = Some (JStr ''REVOKED''))
      \<and> (case verifyDegree (parse_ledger l ''transcript-S1'') (net_ledger l) ''transcript-S1'' None of
            Inl e \<Rightarrow> False
          | Inr r \<Rightarrow> v_verified r \<and> jget (v_degree r) ''status'' = Some (JStr ''ACTIVE'')))"
  by code_simp

section \<open>Properties of the gateway connection\<close>

text \<open>
  C5 as stated does not hold. A key that \<^verbatim>\<open>crypto.createPrivateKey\<close> reads as an
  Ed25519 key is neither elliptic-curve ("ec") nor RSA: \<^verbatim>\<open>createSigner\<close> throws
  a plain \<^verbatim>\<open>Error\<close>, whose name is "Error" and not "UnsupportedKeyError", and
  which the error handler answers as an internal server error.
\<close>

theorem createSigner_counterexample:
  "createSigner sdk_demo ''ed25519-key'' = Inl (Error ''Unsupported key type: ed25519'')
   \<and> err_name (Error ''Unsupported key type: ed25519'') = ''Error''
   \<and> err_name (Error ''Unsupported key type: ed25519'') \<noteq> ''UnsupportedKeyError''
   \<and> res_code (errorHandler (Error ''Unsupported key type: ed25519'')) = ''INTERNAL_SERVER_ERROR''"
  by code_simp

text \<open>
  C5, amended. \<^verbatim>\<open>createSigner\<close> takes the key alone and decides by its
  \<^verbatim>\<open>asymmetricKeyType\<close>: for "ec" it returns what
  \<^verbatim>\<open>newPrivateKeySigner\<close> gives, for "rsa" and "rsa-pss" what
  \<^verbatim>\<open>createRSASigner\<close> gives; for any other type it throws the plain
  \<^verbatim>\<open>Error\<close> "Unsupported key type: ..."; and when the key cannot be read at
  all it throws the error of \<^verbatim>\<open>crypto.createPrivateKey\<close> unchanged.
\<close>

theorem createSigner_key_types:
  "(createPrivateKey lib key = Inr (Some ''ec'')
      \<longrightarrow> createSigner lib key = newPrivateKeySigner lib key)
   \<and> (createPrivateKey lib key = Inr (Some ''rsa'') \<or> createPrivateKey lib key = Inr (Some ''rsa-pss'')
      \<longrightarrow> createSigner lib key = createRSASigner lib key)
   \<and> (\<forall>t. createPrivateKey lib key = Inr t \<and> t \<noteq> Some ''ec'' \<and> t \<noteq> Some ''rsa'' \<and> t \<noteq> Some ''rsa-pss''
      \<longrightarrow> createSigner lib key = Inl (Error (''Unsupported key type: '' @ key_type_text t))
          \<and> err_name (Error (''Unsupported key type: '' @ key_type_text t)) = ''Error'')
   \<and> (\<forall>e. createPrivateKey lib key = Inl e \<longrightarrow> createSigner lib key = Inl e)"
  by (auto simp: createSigner_def)

theorem createSigner_key_types_witness:
  "createPrivateKey sdk_demo ''alice-ec-key'' = Inr (Some ''ec'')
   \<and> createSigner sdk_demo ''alice-ec-key'' = Inr (PrivateKeySigner ''alice-ec-key'')
   \<and> createPrivateKey sdk_demo ''rsa-key'' = Inr (Some ''rsa'')
   \<and> createSigner sdk_demo ''rsa-key'' = Inr (RSASigner ''rsa-key'')"
proof -
  have a: "createPrivateKey sdk_demo ''alice-ec-key'' = Inr (Some ''ec'')" by code_simp
  have b: "createPrivateKey sdk_demo ''rsa-key'' = Inr (Some ''rsa'')" by code_simp
  have c: "newPrivateKeySigner sdk_demo ''alice-ec-key'' = Inr (PrivateKeySigner ''alice-ec-key'')"
    by (simp add: sdk_demo_def)
  have d: "createRSASigner sdk_demo ''rsa-key'' = Inr (RSASigner ''rsa-key'')"
    by (simp add: createRSASigner_def sdk_demo_def)
  from createSigner_key_types [of sdk_demo "''alice-ec-key''"] a c
  have e: "createSigner sdk_demo ''alice-ec-key'' = Inr (PrivateKeySigner ''alice-ec-key'')"
    by simp
  from createSigner_key_types [of sdk_demo "''rsa-key''"] b d
  have f: "createSigner sdk_demo ''rsa-key'' = Inr (RSASigner ''rsa-key'')"
    by simp
  from a b e f show ?thesis by simp
qed

lemma connectToGateway_options:
  "connectToGateway lib client ident s = Inr g \<Longrightarrow> gw_options g = default_options"
  by (auto simp: connectToGateway_def default_options_def split: option.splits)

lemma set_map_set: "set (map_set xs k v) \<subseteq> insert (k, v) (set xs)"
  by (induction xs) (auto split: if_splits)

lemma set_map_delete: "set (map_delete xs k) \<subseteq> set xs"
  by (auto simp: map_delete_def)

lemma keys_map_set: "fst ` set (map_set xs k v) = insert k (fst ` set xs)"
  by (induction xs) (force split: if_splits)+

lemma distinct_map_set: "distinct (map fst xs) \<Longrightarrow> distinct (map fst (map_set xs k v))"
proof (induction xs)
  case Nil
  then show ?case by simp
next
  case (Cons a xs)
  then show ?case
    using keys_map_set [of xs k v] by (cases a) (auto simp: image_iff)
qed

lemma distinct_map_delete: "distinct (map fst xs) \<Longrightarrow> distinct (map fst (map_delete xs k))"
  by (simp add: map_delete_def distinct_map_filter)


lemma mgr_inv_map_set:
  assumes "mgr_inv m" "gw_options (c_gateway e) = default_options"
  shows "mgr_inv (m\<lparr>m_userGateways := map_set (m_userGateways m) k e\<rparr>)"
  using assms set_map_set [of "m_userGateways m" k e]
  by (auto simp: mgr_inv_def distinct_map_set)

lemma pc_inv_connectToGateway: "pc_inv (AwaitGateway c (connectToGateway lib c ident s))"
  by (cases "connectToGateway lib c ident s") (auto simp: pc_inv_def dest: connectToGateway_options)

lemma advance_inv:
  assumes "mgr_inv m" "pc_inv p" "advance lib now u m p = (m', p')"
  shows "mgr_inv m' \<and> pc_inv p'"
proof (cases p)
  case Called
  show ?thesis
  proof (cases "u = []")
    case True
    with Called assms show ?thesis by (auto simp: pc_inv_def)
  next
    case False
    show ?thesis
    proof (cases "map_of (m_userGateways m) u")
      case None
      with Called False assms show ?thesis by (auto simp: pc_inv_def)
    next
      case (Some e)
      then have "(u, e) \<in> set (m_userGateways m)" by (rule map_of_SomeD)
      with assms(1) have o: "gw_options (c_gateway e) = default_options"
        by (auto simp: mgr_inv_def)
      then have "mgr_inv (m\<lparr>m_userGateways := map_set (m_userGateways m) u (e\<lparr>c_lastUsed := now\<rparr>)\<rparr>)"
        using assms(1) by (intro mgr_inv_map_set) simp_all
      with Called False Some assms(3) o show ?thesis by (auto simp: pc_inv_def)
    qed
  qed
next
  case AwaitIdentity
  with assms show ?thesis
    by (auto simp: pc_inv_def split: sum.splits option.splits)
next
  case (AwaitTls ident)
  with assms show ?thesis
    by (auto simp: mgr_inv_def Let_def pc_inv_connectToGateway split: sum.splits)
       (simp_all add: pc_inv_def)
next
  case (AwaitGateway client outcome)
  show ?thesis
  proof (cases outcome)
    case (Inl e)
    with AwaitGateway assms show ?thesis by (auto simp: pc_inv_def)
  next
    case (Inr g)
    with AwaitGateway assms(2) have o: "gw_options g = default_options"
      by (simp add: pc_inv_def)
    then have "mgr_inv (m\<lparr>m_userGateways := map_set (m_userGateways m) u
                 \<lparr>c_gateway = g, c_client = client, c_lastUsed = now\<rparr>\<rparr>)"
      using assms(1) by (intro mgr_inv_map_set) simp_all
    with AwaitGateway Inr assms(3) o show ?thesis by (auto simp: pc_inv_def)
  qed
next
  case (Returned r)
  with assms show ?thesis by auto
qed

lemma connect_inv: "mgr_inv m \<Longrightarrow> mgr_inv (fst (connect lib m))"
  by (auto simp: connect_def mgr_inv_def Let_def split: sum.splits dest: connectToGateway_options)

lemma disconnectUserGateway_inv: "mgr_inv m \<Longrightarrow> mgr_inv (disconnectUserGateway lib u m)"
  using set_map_delete [of "m_userGateways m" u]
  by (auto simp: disconnectUserGateway_def mgr_inv_def Let_def distinct_map_delete
           split: option.splits)

lemma disconnect_loop_inv: "mgr_inv m \<Longrightarrow> mgr_inv (disconnect_loop lib xs m)"
  by (induction xs arbitrary: m) (auto simp: disconnectUserGateway_inv)

lemma cleanup_loop_inv: "mgr_inv m \<Longrightarrow> mgr_inv (fst (cleanup_loop lib now maxAge xs (m, n)))"
  by (induction xs arbitrary: m n) (auto simp: disconnectUserGateway_inv)

lemma disconnect_inv: "mgr_inv m \<Longrightarrow> mgr_inv (fst (disconnect lib m))"
proof -
  assume m: "mgr_inv m"
  then have "mgr_inv (disconnectAllUserGateways lib m)"
    by (simp add: disconnectAllUserGateways_def disconnect_loop_inv)
  with m show ?thesis
    by (auto simp: disconnect_def Let_def mgr_inv_def split: option.splits sum.splits)
qed

lemma run_turn_inv:
  assumes "mgr_inv m" "\<forall>t \<in> set tasks. pc_inv (snd t)"
      and "run_schedule lib [(i, now)] (m, tasks) = (m', tasks')"
  shows "mgr_inv m' \<and> (\<forall>t \<in> set tasks'. pc_inv (snd t))"
proof (cases "i < length tasks")
  case False
  with assms show ?thesis by simp
next
  case True
  obtain m1 p1 where a: "advance lib now (fst (tasks ! i)) m (snd (tasks ! i)) = (m1, p1)"
    by (cases "advance lib now (fst (tasks ! i)) m (snd (tasks ! i))")
  from True assms(2) have "pc_inv (snd (tasks ! i))" by simp
  from advance_inv [OF assms(1) this a] have inv1: "mgr_inv m1" "pc_inv p1" by simp_all
  from True a assms(3) have e: "m' = m1" "tasks' = tasks[i := (fst (tasks ! i), p1)]"
    by simp_all
  have "\<forall>t \<in> set (tasks[i := (fst (tasks ! i), p1)]). pc_inv (snd t)"
  proof
    fix t assume "t \<in> set (tasks[i := (fst (tasks ! i), p1)])"
    then have "t \<in> insert (fst (tasks ! i), p1) (set tasks)"
      using set_update_subset_insert by fastforce
    with assms(2) inv1(2) show "pc_inv (snd t)" by auto
  qed
  with e inv1 show ?thesis by simp
qed

lemma reachable_inv:
  "mgr_reachable lib cfg \<Longrightarrow> mgr_inv (fst cfg) \<and> (\<forall>t \<in> set (snd cfg). pc_inv (snd t))"
proof (induction rule: mgr_reachable.induct)
  case reach_new
  show ?case by (simp add: mgr_inv_def new_manager_def)
next
  case (reach_call m tasks username)
  then show ?case by (simp add: pc_inv_def)
next
  case (reach_turn m tasks i now)
  obtain m' tasks' where r: "run_schedule lib [(i, now)] (m, tasks) = (m', tasks')"
    by (cases "run_schedule lib [(i, now)] (m, tasks)")
  with reach_turn.IH run_turn_inv [of m tasks lib i now m' tasks'] show ?case by simp
next
  case (reach_connect m tasks)
  then show ?case by (simp add: connect_inv)
next
  case (reach_disconnect m tasks)
  then show ?case by (simp add: disconnect_inv)
next
  case (reach_disconnectUser m tasks username)
  then show ?case by (simp add: disconnectUserGateway_inv)
next
  case (reach_cleanup m tasks now maxAge)
  then show ?case by (simp add: cleanupStaleConnections_def cleanup_loop_inv)
qed

text \<open>
  C6. A gateway that \<^verbatim>\<open>connectToGateway\<close> returns has four deadlines, each
  counted from the clock at the time of the call: 5 seconds for an evaluation, 15 for
  the endorsement, 5 for the submission and 60 for the commit status. Every gateway of
  the manager, in any configuration it can reach (the default gateway, the cached user
  gateways and those of the calls in flight), has these four deadlines.
\<close>

theorem gateway_deadlines:
  "(\<forall>g. connectToGateway lib client ident s = Inr g \<longrightarrow>
        evaluateOptions (gw_options g) now = now + 5000
      \<and> endorseOptions (gw_options g) now = now + 15000
      \<and> submitOptions (gw_options g) now = now + 5000
      \<and> commitStatusOptions (gw_options g) now = now + 60000)
   \<and> (mgr_reachable lib cfg \<longrightarrow>
        (\<forall>g \<in> set (gateways_of cfg).
            evaluateOptions (gw_options g) now = now + 5000
          \<and> endorseOptions (gw_options g) now = now + 15000
          \<and> submitOptions (gw_options g) now = now + 5000
          \<and> commitStatusOptions (gw_options g) now = now + 60000))"
proof (intro conjI allI impI ballI)
  fix g assume "connectToGateway lib client ident s = Inr g"
  then have "gw_options g = default_options" by (rule connectToGateway_options)
  then show "evaluateOptions (gw_options g) now = now + 5000"
    "endorseOptions (gw_options g) now = now + 15000"
    "submitOptions (gw_options g) now = now + 5000"
    "commitStatusOptions (gw_options g) now = now + 60000"
    by (simp_all add: default_options_def)
next
  fix g assume r: "mgr_reachable lib cfg" and g: "g \<in> set (gateways_of cfg)"
  from reachable_inv [OF r] g have "gw_options g = default_options"
    by (auto simp: gateways_of_def mgr_inv_def pc_inv_def split: option.splits)
  then show "evaluateOptions (gw_options g) now = now + 5000"
    "endorseOptions (gw_options g) now = now + 15000"
    "submitOptions (gw_options g) now = now + 5000"
    "commitStatusOptions (gw_options g) now = now + 60000"
    by (simp_all add: default_options_def)
qed

lemma connect_demo:
  "fst (connect sdk_demo new_manager) =
     new_manager\<lparr>m_client := Some 0, clients_created := 1,
                  m_gateway := Some \<lparr>gw_client = 0,
                                      gw_identity = createIdentity ''Org1MSP'' ''cert.pem'',
                                      gw_signer = RSASigner ''key.pem'',
                                      gw_options = default_options\<rparr>,
                  m_isConnected := True\<rparr>"
  by (simp add: connect_def sdk_demo_def new_manager_def loadCertificate_def loadPrivateKey_def
        loadTlsRootCertificate_def createSigner_def createRSASigner_def connectToGateway_def
        default_options_def Let_def)

theorem gateway_deadlines_witness:
  "mgr_reachable sdk_demo (fst (connect sdk_demo new_manager), [])
   \<and> (\<exists>g. m_gateway (fst (connect sdk_demo new_manager)) = Some g
          \<and> evaluateOptions (gw_options g) 1000 = 6000
          \<and> endorseOptions (gw_options g) 1000 = 16000
          \<and> submitOptions (gw_options g) 1000 = 6000
          \<and> commitStatusOptions (gw_options g) 1000 = 61000)"
proof -
  let ?cfg = "(fst (connect sdk_demo new_manager), [] :: (string \<times> pc) list)"
  let ?g = "\<lparr>gw_client = 0, gw_identity = createIdentity ''Org1MSP'' ''cert.pem'',
              gw_signer = RSASigner ''key.pem'', gw_options = default_options\<rparr>"
  have r: "mgr_reachable sdk_demo ?cfg"
    by (rule reach_connect [OF reach_new])
  have g: "m_gateway (fst (connect sdk_demo new_manager)) = Some ?g"
    by (simp add: connect_demo)
  then have "?g \<in> set (gateways_of ?cfg)"
    by (simp add: gateways_of_def)
  with gateway_deadlines [of sdk_demo 0 "createIdentity ''Org1MSP'' ''cert.pem''" "RSASigner ''key.pem''" 1000 ?cfg] r
  have "evaluateOptions (gw_options ?g) 1000 = 6000
          \<and> endorseOptions (gw_options ?g) 1000 = 16000
          \<and> submitOptions (gw_options ?g) 1000 = 6000
          \<and> commitStatusOptions (gw_options ?g) 1000 = 61000"
    by auto
  with r g show ?thesis by blast
qed



















end
